theory Spec2Isabelle
  imports Main "HOL-Library.Sublist"
begin

section \<open>Values, strings and dictionaries of the Python program\<close>

text \<open>
  The program is \<^verbatim>\<open>src/dataverse.py\<close>. Its data are JSON values decoded by
  \<^verbatim>\<open>json.load\<close> and \<^verbatim>\<open>response.json()\<close>. The model keeps the scalar values:
  \<^verbatim>\<open>None\<close>, booleans, integers and strings. Fractional numbers and nested
  arrays or objects are only carried through by the program and are not modelled.
  A Python \<^verbatim>\<open>str\<close> is modelled on ASCII text only: \<open>upper\<close> and \<open>strip\<close>
  below are \<^verbatim>\<open>str.upper\<close> and \<^verbatim>\<open>str.strip\<close> for strings that satisfy
  \<open>ascii\<close>. On other strings Python does more (it strips U+00A0 and U+0085, and
  upper-cases non-ASCII letters), so a statement about an arbitrary typed line assumes
  \<open>ascii\<close> of it.
\<close>

datatype json = JNull | JBool bool | JNum int | JStr string

text \<open>A Python \<^verbatim>\<open>dict\<close> with string keys, in insertion order.\<close>

type_synonym dict = "(string \<times> json) list"

text \<open>\<^verbatim>\<open>d.get(key, default)\<close>\<close>

definition dict_get :: "dict \<Rightarrow> string \<Rightarrow> json \<Rightarrow> json" where
  "dict_get d key dflt = (case map_of d key of None \<Rightarrow> dflt | Some v \<Rightarrow> v)"

text \<open>\<^verbatim>\<open>d[key] = v\<close>: an existing key keeps its position, a new key goes last.\<close>

primrec dict_set :: "string \<Rightarrow> json \<Rightarrow> dict \<Rightarrow> dict" where
  "dict_set key v [] = [(key, v)]"
| "dict_set key v (p # ps) = (if fst p = key then (key, v) # ps else p # dict_set key v ps)"

text \<open>\<^verbatim>\<open>{**a, **b}\<close>: the items of \<open>b\<close> are stored into a copy of \<open>a\<close>, in order.\<close>

definition dict_merge :: "dict \<Rightarrow> dict \<Rightarrow> dict" where
  "dict_merge a b = foldl (\<lambda>d (key, v). dict_set key v d) a b"

text \<open>Truth value of a Python object, as tested by \<^verbatim>\<open>if x:\<close>.\<close>

fun py_truthy :: "json \<Rightarrow> bool" where
  "py_truthy JNull = False"
| "py_truthy (JBool b) = b"
| "py_truthy (JNum n) = (n \<noteq> 0)"
| "py_truthy (JStr s) = (s \<noteq> [])"

text \<open>Python's \<^verbatim>\<open>==\<close> on these values: \<^verbatim>\<open>True == 1\<close> and \<^verbatim>\<open>False == 0\<close> hold.\<close>

fun py_eq :: "json \<Rightarrow> json \<Rightarrow> bool" where
  "py_eq JNull JNull = True"
| "py_eq (JBool a) (JBool b) = (a = b)"
| "py_eq (JBool a) (JNum n) = (n = (if a then 1 else 0))"
| "py_eq (JNum n) (JBool a) = (n = (if a then 1 else 0))"
| "py_eq (JNum m) (JNum n) = (m = n)"
| "py_eq (JStr s) (JStr t) = (s = t)"
| "py_eq _ _ = False"

text \<open>Decimal digits of a natural number, for \<^verbatim>\<open>str(n)\<close> and f-strings.\<close>

definition digit_char :: "nat \<Rightarrow> char" where
  "digit_char d = char_of (48 + d)"

function str_nat :: "nat \<Rightarrow> string" where
  "str_nat n = (if n < 10 then [digit_char n] else str_nat (n div 10) @ [digit_char (n mod 10)])"
  by pat_completeness auto
termination
  by (relation "measure (\<lambda>n. n)") auto

declare str_nat.simps [simp del]

text \<open>\<^verbatim>\<open>str(x)\<close>, which is what an f-string writes for \<^verbatim>\<open>{x}\<close>.\<close>

fun py_str :: "json \<Rightarrow> string" where
  "py_str JNull = ''None''"
| "py_str (JBool b) = (if b then ''True'' else ''False'')"
| "py_str (JNum n) = (if n < 0 then CHR ''-'' # str_nat (nat (- n)) else str_nat (nat n))"
| "py_str (JStr s) = s"

text \<open>The strings on which the model of \<^verbatim>\<open>str\<close> is exact: every character is ASCII.\<close>

definition ascii :: "string \<Rightarrow> bool" where
  "ascii s = list_all (\<lambda>c. (of_char c :: nat) < 128) s"

text \<open>\<^verbatim>\<open>s.upper()\<close> for an ASCII string \<open>s\<close>: the letters a to z change.\<close>

definition upper_char :: "char \<Rightarrow> char" where
  "upper_char c = (let n = (of_char c :: nat) in if 97 \<le> n \<and> n \<le> 122 then char_of (n - 32) else c)"

definition upper :: "string \<Rightarrow> string" where
  "upper s = map upper_char s"

text \<open>
  \<^verbatim>\<open>s.strip()\<close> for an ASCII string \<open>s\<close>: the ASCII characters for which
  \<^verbatim>\<open>str.isspace\<close> holds are removed at both ends.
\<close>

definition is_space :: "char \<Rightarrow> bool" where
  "is_space c = (let n = (of_char c :: nat) in (9 \<le> n \<and> n \<le> 13) \<or> (28 \<le> n \<and> n \<le> 32))"

definition strip :: "string \<Rightarrow> string" where
  "strip s = rev (dropWhile is_space (rev (dropWhile is_space s)))"

text \<open>\<^verbatim>\<open>s.split(",")\<close>: always at least one piece.\<close>

primrec split_on :: "char \<Rightarrow> string \<Rightarrow> string list" where
  "split_on d [] = [[]]"
| "split_on d (c # cs) =
     (if c = d then [] # split_on d cs
      else (case split_on d cs of [] \<Rightarrow> [[c]] | w # ws \<Rightarrow> (c # w) # ws))"

text \<open>\<^verbatim>\<open>t in s\<close> for two strings: \<open>t\<close> occurs in \<open>s\<close> as a contiguous piece.\<close>

primrec contains :: "string \<Rightarrow> string \<Rightarrow> bool" where
  "contains t [] = (t = [])"
| "contains t (c # cs) = (prefix t (c # cs) \<or> contains t cs)"

text \<open>\<^verbatim>\<open>base64.b64encode(content).decode("utf-8")\<close> of the standard library.\<close>

definition b64_alphabet :: string where
  "b64_alphabet = ''ABCDEFGHIJKLMNOPQRSTUVWXYZabcdefghijklmnopqrstuvwxyz0123456789+/''"

definition b64_char :: "nat \<Rightarrow> char" where
  "b64_char n = b64_alphabet ! (n mod 64)"

fun b64encode :: "string \<Rightarrow> string" where
  "b64encode [] = []"
| "b64encode [a] =
     (let x = (of_char a :: nat) in
      [b64_char (x div 4), b64_char ((x mod 4) * 16), CHR ''='', CHR ''=''])"
| "b64encode [a, b] =
     (let x = (of_char a :: nat); y = (of_char b :: nat) in
      [b64_char (x div 4), b64_char ((x mod 4) * 16 + y div 16), b64_char ((y mod 16) * 4), CHR ''=''])"
| "b64encode (a # b # c # rest) =
     (let x = (of_char a :: nat); y = (of_char b :: nat); z = (of_char c :: nat) in
      [b64_char (x div 4), b64_char ((x mod 4) * 16 + y div 16),
       b64_char ((y mod 16) * 4 + z div 64), b64_char (z mod 64)] @ b64encode rest)"

section \<open>Month resolution (lines 75 to 101)\<close>

text \<open>The dictionary \<^verbatim>\<open>month_mapping\<close>, with its items in the order of the source.\<close>

definition month_mapping :: "(string \<times> string) list" where
  "month_mapping =
    [(''01'', ''JAN''), (''JANUARY'', ''JAN''), (''JAN'', ''JAN''),
     (''02'', ''FEB''), (''FEBRUARY'', ''FEB''), (''FEB'', ''FEB''),
     (''03'', ''MAR''), (''MARCH'', ''MAR''), (''MAR'', ''MAR''),
     (''04'', ''APR''), (''APRIL'', ''APR''), (''APR'', ''APR''),
     (''05'', ''MAY''), (''MAY'', ''MAY''),
     (''06'', ''JUN''), (''JUNE'', ''JUN''), (''JUN'', ''JUN''),
     (''07'', ''JUL''), (''JULY'', ''JUL''), (''JUL'', ''JUL''),
     (''08'', ''AUG''), (''AUGUST'', ''AUG''), (''AUG'', ''AUG''),
     (''09'', ''SEP''), (''SEPTEMBER'', ''SEP''), (''SEP'', ''SEP''),
     (''10'', ''OCT''), (''OCTOBER'', ''OCT''), (''OCT'', ''OCT''),
     (''11'', ''NOV''), (''NOVEMBER'', ''NOV''), (''NOV'', ''NOV''),
     (''12'', ''DEC''), (''DECEMBER'', ''DEC''), (''DEC'', ''DEC'')]"

text \<open>
  Lines 95 to 101 on the stripped, upper-cased input. \<open>Invalid_month\<close> is the
  \<^verbatim>\<open>else\<close> branch (\<^verbatim>\<open>exit(1)\<close>); \<open>Index_error\<close> is what \<^verbatim>\<open>[...][0]\<close> would
  raise on an empty list.
\<close>

datatype month_result = Invalid_month | Index_error | Month string string

definition resolve_month :: "string \<Rightarrow> month_result" where
  "resolve_month month_input =
     (case map_of month_mapping month_input of
        None \<Rightarrow> Invalid_month
      | Some abbr \<Rightarrow>
          (case filter (\<lambda>(key, value). value = abbr) month_mapping of
             [] \<Rightarrow> Index_error
           | (key, value) # _ \<Rightarrow> Month key abbr))"

section \<open>The field table (lines 280 to 339)\<close>

text \<open>The dictionary \<^verbatim>\<open>key_mapping\<close>: source field name, output field name.\<close>

definition key_mapping :: "(string \<times> string) list" where
  "key_mapping =
    [(''crd8d_audit'', ''audit''),
     (''crd8d_catatan'', ''catatan''),
     (''crd8d_gantipecu@OData.Community.Display.V1.FormattedValue'', ''gantipecu''),
     (''crd8d_id'', ''id''),
     (''crd8d_jenamalampu@OData.Community.Display.V1.FormattedValue'', ''jenamalampu''),
     (''crd8d_jenamaxlampu@OData.Community.Display.V1.FormattedValue'', ''jenamaxlampu''),
     (''crd8d_jenamaxpecu@OData.Community.Display.V1.FormattedValue'', ''jenamaxpecu''),
     (''crd8d_jeniskerja@OData.Community.Display.V1.FormattedValue'', ''jeniskerja''),
     (''crd8d_jenislampu@OData.Community.Display.V1.FormattedValue'', ''jenislampu''),
     (''crd8d_jenispemasanganbaru@OData.Community.Display.V1.FormattedValue'', ''jenispemasanganbaru''),
     (''crd8d_jenisxlampu@OData.Community.Display.V1.FormattedValue'', ''jenisxlampu''),
     (''crd8d_kapasiti@OData.Community.Display.V1.FormattedValue'', ''kapasiti''),
     (''crd8d_kategorilampu@OData.Community.Display.V1.FormattedValue'', ''kategorilampu''),
     (''crd8d_kodlampu@OData.Community.Display.V1.FormattedValue'', ''kodlampu''),
     (''crd8d_kodxlampu@OData.Community.Display.V1.FormattedValue'', ''kodxlampu''),
     (''crd8d_lampumanyala@OData.Community.Display.V1.FormattedValue'', ''lampumanyala''),
     (''crd8d_lampurosak@OData.Community.Display.V1.FormattedValue'', ''lampurosak''),
     (''crd8d_location'', ''location''),
     (''crd8d_namajalan'', ''namajalan''),
     (''crd8d_noreport'', ''noreport''),
     (''crd8d_nosiri'', ''nosiri''),
     (''crd8d_notiang'', ''notiang''),
     (''crd8d_perihalkerja'', ''perihalkerja''),
     (''crd8d_qr2id'', ''qr2id''),
     (''crd8d_tahunxpecu@OData.Community.Display.V1.FormattedValue'', ''tahunxpecu''),
     (''crd8d_tarikh'', ''tarikh''),
     (''crd8d_waktu@OData.Community.Display.V1.FormattedValue'', ''waktu''),
     (''createdon'', ''createdon''),
     (''modifiedon'', ''modifiedon''),
     (''crd8d_nosn'', ''nosn''),
     (''crd8d_carakawalan@OData.Community.Display.V1.FormattedValue'', ''carakawalan''),
     (''_createdby_value@OData.Community.Display.V1.FormattedValue'', ''_createdby_value''),
     (''_modifiedby_value@OData.Community.Display.V1.FormattedValue'', ''_modifiedby_value''),
     (''_owningbusinessunit_value@OData.Community.Display.V1.FormattedValue'', ''_owningbusinessunit_value''),
     (''crd8d_lokasikawalanmasa'', ''lokasikawalanmasa''),
     (''crd8d_namapemegangakaun'', ''namapemegangakaun''),
     (''crd8d_noakaun'', ''noakaun''),
     (''_crd8d_admin_value@OData.Community.Display.V1.FormattedValue'', ''admin_name''),
     (''_crd8d_chargeman_value@OData.Community.Display.V1.FormattedValue'', ''chargeman_name''),
     (''crd8d_chargemanno'', ''chargeman_number''),
     (''crd8d_ssmregistrationno'', ''ssm_registration_number''),
     (''crd8d_tnbvendorno'', ''tnb_vendor_number''),
     (''zon.crd8d_businessarea'', ''business_area''),
     (''zon.crd8d_sub_business_area'', ''sub_business_area''),
     (''zon.crd8d_negeri@OData.Community.Display.V1.FormattedValue'', ''negeri''),
     (''zon.crd8d_kod'', ''kod''),
     (''zon.crd8d_region@OData.Community.Display.V1.FormattedValue'', ''region''),
     (''zon.crd8d_engineer@OData.Community.Display.V1.FormattedValue'', ''engineer_name''),
     (''zon.crd8d_engineerno'', ''engineer_number''),
     (''zon.crd8d_technician@OData.Community.Display.V1.FormattedValue'', ''technician_name''),
     (''zon.crd8d_technicianno'', ''technician_number''),
     (''zon.crd8d_weekend@OData.Community.Display.V1.FormattedValue'', ''weekend''),
     (''crd8d_workorderstatus@OData.Community.Display.V1.FormattedValue'', ''workorderstatus''),
     (''gambar1_base64'', ''image1_full''),
     (''gambar2_base64'', ''image2_full''),
     (''gambar3_base64'', ''image3_full''),
     (''gambar4_base64'', ''image4_full''),
     (''gambar5_base64'', ''image5_full'')]"

section \<open>The environment and the effects of a run\<close>

text \<open>
  Everything the program does to the outside is an event of the run, in order:
  console output, prompts, the token request to the identity provider
  (\<^verbatim>\<open>app.acquire_token_for_client\<close>) and every \<^verbatim>\<open>requests.get\<close>. A query to
  Dataverse is recorded with its \<^verbatim>\<open>Authorization\<close> header and the values that
  are put into its FetchXML text; an image download with its URL.
\<close>

datatype request =
    Units_query string
  | Details_query string json string string
  | Image_get string

datatype event = Print string | Prompt string | Token_request | Http request

text \<open>What a call to the outside gives back: a value, or an exception.\<close>

datatype 'a fetched = Fetched 'a | Request_exception string | Other_exception string

text \<open>
  The token acquisition of lines 26 to 33: the constructor of the MSAL application
  may raise (outside the \<^verbatim>\<open>try\<close>), the call may raise (inside it), or it returns
  the result dictionary.
\<close>

datatype acquired = App_raises string | Acquire_raises string | Token_result dict

datatype error = RequestException string | KeyError string | TypeError string | OtherError string

datatype 'a proc = Returns 'a | Exits nat | Uncaught string

datatype outcome = Finished | Exit nat | Crash string

text \<open>
  The outside world, fixed for a run: what MSAL does, what the user types at the three
  prompts, and what the two servers answer. An answer may depend on everything that
  happened before the request (the events so far). \<open>open_error\<close> tells for the name
  of an output file whether \<^verbatim>\<open>open\<close> raises on it (with the text of the exception),
  as it does for a name with a \<^verbatim>\<open>/\<close> into a directory that does not exist.
\<close>

record env =
  acquire_token_for_client :: acquired
  typed_names :: string
  typed_year :: string
  typed_month :: string
  dataverse_get :: "event list \<Rightarrow> request \<Rightarrow> dict list fetched"
  blob_get :: "event list \<Rightarrow> string \<Rightarrow> string fetched"
  open_error :: "string \<Rightarrow> string option"

text \<open>
  The state a run changes: the JSON files of the working directory, each given by the
  array of objects that its text decodes to, and the events so far. The files present
  before the run are files this program wrote, and the checkpoint file can be read and
  written.
\<close>

record world =
  files :: "string \<rightharpoonup> dict list"
  trace :: "event list"

definition emit :: "event \<Rightarrow> world \<Rightarrow> world" where
  "emit e w = w\<lparr>trace := trace w @ [e]\<rparr>"

definition say :: "string \<Rightarrow> world \<Rightarrow> world" where
  "say s w = emit (Print s) w"

definition quoted :: "string \<Rightarrow> string" where
  "quoted s = CHR 0x27 # s @ [CHR 0x27]"

fun py_type_name :: "json \<Rightarrow> string" where
  "py_type_name JNull = ''NoneType''"
| "py_type_name (JBool b) = ''bool''"
| "py_type_name (JNum n) = ''int''"
| "py_type_name (JStr s) = ''str''"

fun str_error :: "error \<Rightarrow> string" where
  "str_error (RequestException e) = e"
| "str_error (KeyError k) = quoted k"
| "str_error (TypeError e) = e"
| "str_error (OtherError e) = e"

section \<open>get_access_token (lines 23 to 43)\<close>

text \<open>
  \<^verbatim>\<open>exit(1)\<close> raises \<^verbatim>\<open>SystemExit\<close>, which \<^verbatim>\<open>except Exception\<close> does not catch.
  The \<^verbatim>\<open>except\<close> branch only prints, so the function then returns \<^verbatim>\<open>None\<close>.
\<close>

definition get_access_token :: "env \<Rightarrow> world \<Rightarrow> json proc \<times> world" where
  "get_access_token env w =
     (case acquire_token_for_client env of
        App_raises e \<Rightarrow> (Uncaught e, w)
      | Acquire_raises e \<Rightarrow>
          (Returns JNull, say (''Dataverse: Error during authentication: '' @ e) (emit Token_request w))
      | Token_result result \<Rightarrow>
          (case map_of result ''access_token'' of
             Some access_token \<Rightarrow>
               (Returns access_token,
                say ''Dataverse access token acquired successfully!'' (emit Token_request w))
           | None \<Rightarrow>
               (let error_description =
                      dict_get result ''error_description'' (JStr ''No error description provided.'')
                in (Exits 1, say (''Failed to acquire Dataverse token: '' @ py_str error_description)
                                 (emit Token_request w)))))"

section \<open>download_and_convert_to_base64 (lines 45 to 57)\<close>

definition download_and_convert_to_base64 :: "env \<Rightarrow> string \<Rightarrow> world \<Rightarrow> (error + json) \<times> world" where
  "download_and_convert_to_base64 env image_url w =
     (let w1 = say (''Attempting to download image from: '' @ image_url) w;
          response = blob_get env (trace w1) image_url;
          w2 = emit (Http (Image_get image_url)) w1
      in case response of
           Fetched content \<Rightarrow>
             (Inr (JStr (b64encode content)),
              say (''Successfully downloaded and converted image: '' @ image_url) w2)
         | Request_exception e \<Rightarrow>
             (Inr JNull, say (''Error downloading image from '' @ image_url @ '': '' @ e) w2)
         | Other_exception e \<Rightarrow> (Inl (OtherError e), w2))"

section \<open>The image loop (lines 267 to 277)\<close>

definition base_url :: string where
  "base_url = ''https://tnbsl.blob.core.windows.net/qr2image/''"

text \<open>The body of \<^verbatim>\<open>for i in range(1, 6)\<close> for one slot of one row.\<close>

definition blob_attribute :: "nat \<Rightarrow> string" where
  "blob_attribute i = ''crd8d_gambar'' @ str_nat i @ ''_blob''"

definition base64_key :: "nat \<Rightarrow> string" where
  "base64_key i = ''gambar'' @ str_nat i @ ''_base64''"

definition enrich_slot :: "env \<Rightarrow> nat \<Rightarrow> dict \<Rightarrow> world \<Rightarrow> (error + dict) \<times> world" where
  "enrich_slot env i row w =
     (case map_of row (blob_attribute i) of
        None \<Rightarrow> (Inr row, w)
      | Some blob \<Rightarrow>
          if py_truthy blob then
            (let image_url = base_url @ py_str blob in
             case download_and_convert_to_base64 env image_url w of
               (Inl e, w') \<Rightarrow> (Inl e, w')
             | (Inr base64_image, w') \<Rightarrow>
                 if py_truthy base64_image
                 then (Inr (dict_set (base64_key i) base64_image row), w')
                 else (Inr row, say (''Failed to process image: '' @ image_url) w'))
          else (Inr row, w))"

primrec enrich_slots :: "env \<Rightarrow> nat list \<Rightarrow> dict \<Rightarrow> world \<Rightarrow> (error + dict) \<times> world" where
  "enrich_slots env [] row w = (Inr row, w)"
| "enrich_slots env (i # is) row w =
     (case enrich_slot env i row w of
        (Inl e, w') \<Rightarrow> (Inl e, w')
      | (Inr row', w') \<Rightarrow> enrich_slots env is row' w')"

definition enrich_row :: "env \<Rightarrow> dict \<Rightarrow> world \<Rightarrow> (error + dict) \<times> world" where
  "enrich_row env row w = enrich_slots env [1..<6] row w"

text \<open>\<^verbatim>\<open>for row in related_data\<close>: the rows are changed in place, one after the other.\<close>

primrec enrich_rows :: "env \<Rightarrow> dict list \<Rightarrow> world \<Rightarrow> (error + dict list) \<times> world" where
  "enrich_rows env [] w = (Inr [], w)"
| "enrich_rows env (row # rows) w =
     (case enrich_row env row w of
        (Inl e, w') \<Rightarrow> (Inl e, w')
      | (Inr row', w') \<Rightarrow>
          (case enrich_rows env rows w' of
             (Inl e, w'') \<Rightarrow> (Inl e, w'')
           | (Inr rows', w'') \<Rightarrow> (Inr (row' # rows'), w'')))"

section \<open>The checkpoint (lines 104 to 116, 187 and 397 to 413)\<close>

definition checkpoint_file :: "string \<Rightarrow> string \<Rightarrow> string" where
  "checkpoint_file month_name year_input =
     ''processed_business_units_'' @ month_name @ ''_'' @ year_input @ ''.json''"

definition load_checkpoint :: "string \<Rightarrow> (string \<rightharpoonup> dict list) \<Rightarrow> dict list" where
  "load_checkpoint file fs = (case fs file of None \<Rightarrow> [] | Some processed_units \<Rightarrow> processed_units)"

definition save_checkpoint :: "string \<Rightarrow> dict list \<Rightarrow> (string \<rightharpoonup> dict list) \<Rightarrow> (string \<rightharpoonup> dict list)" where
  "save_checkpoint file processed_units fs = fs(file \<mapsto> processed_units)"

text \<open>
  \<^verbatim>\<open>any(unit["business_unit_id"] == business_unit_id for unit in processed_units)\<close>:
  it stops at the first equal id, and a unit without the key raises \<^verbatim>\<open>KeyError\<close>.
\<close>

primrec any_unit_id :: "dict list \<Rightarrow> json \<Rightarrow> error + bool" where
  "any_unit_id [] business_unit_id = Inr False"
| "any_unit_id (unit # units) business_unit_id =
     (case map_of unit ''business_unit_id'' of
        None \<Rightarrow> Inl (KeyError ''business_unit_id'')
      | Some v \<Rightarrow> if py_eq v business_unit_id then Inr True else any_unit_id units business_unit_id)"

text \<open>Lines 408 to 411: the first unit with the id gets the new row count.\<close>

primrec set_total_rows :: "dict list \<Rightarrow> json \<Rightarrow> nat \<Rightarrow> error + dict list" where
  "set_total_rows [] business_unit_id total_rows_processed = Inr []"
| "set_total_rows (unit # units) business_unit_id total_rows_processed =
     (case map_of unit ''business_unit_id'' of
        None \<Rightarrow> Inl (KeyError ''business_unit_id'')
      | Some v \<Rightarrow>
          if py_eq v business_unit_id
          then Inr (dict_set ''total_rows'' (JNum (int total_rows_processed)) unit # units)
          else (case set_total_rows units business_unit_id total_rows_processed of
                  Inl e \<Rightarrow> Inl e
                | Inr units' \<Rightarrow> Inr (unit # units')))"

text \<open>Lines 399 to 411, on the list that \<^verbatim>\<open>load_checkpoint\<close> returned.\<close>

definition update_checkpoint :: "dict list \<Rightarrow> json \<Rightarrow> json \<Rightarrow> nat \<Rightarrow> error + dict list" where
  "update_checkpoint processed_units business_unit_id business_unit_name total_rows_processed =
     (case any_unit_id processed_units business_unit_id of
        Inl e \<Rightarrow> Inl e
      | Inr found \<Rightarrow>
          if \<not> found
          then Inr (processed_units @
                    [[(''business_unit_id'', business_unit_id),
                      (''business_unit_name'', business_unit_name),
                      (''total_rows'', JNum (int total_rows_processed))]])
          else set_total_rows processed_units business_unit_id total_rows_processed)"

section \<open>remap_and_save_data (lines 341 to 418)\<close>

text \<open>
  Line 363, the dictionary comprehension: for each item of the table, in order, the new
  key is stored with the value of the old key, or the empty string.
\<close>

definition remap_row :: "(string \<times> string) list \<Rightarrow> dict \<Rightarrow> dict" where
  "remap_row mapping combined_row =
     foldl (\<lambda>d (old_key, new_key). dict_set new_key (dict_get combined_row old_key (JStr [])) d)
       [] mapping"


text \<open>
  The same lines in a run, on the decoded arrays of the files: \<^verbatim>\<open>open\<close> may raise,
  and otherwise the file holds the old array with the new record appended (the text of a
  file this program wrote is not longer than the text of the longer array, so nothing of
  it stays).
\<close>

definition save_row ::
  "env \<Rightarrow> string \<Rightarrow> dict \<Rightarrow> (string \<rightharpoonup> dict list) \<Rightarrow> error + (string \<rightharpoonup> dict list)"
where
  "save_row env file_name remapped_row fs =
     (case open_error env file_name of
        Some e \<Rightarrow> Inl (OtherError e)
      | None \<Rightarrow>
          (case fs file_name of
             None \<Rightarrow> Inr (fs(file_name \<mapsto> [remapped_row]))
           | Some existing_data \<Rightarrow> Inr (fs(file_name \<mapsto> existing_data @ [remapped_row]))))"

text \<open>
  The loop of lines 357 to 387 with its \<^verbatim>\<open>try\<close> and \<^verbatim>\<open>except\<close>: a row whose file
  cannot be written is reported and not counted, and the loop goes on with the next row.
\<close>

primrec save_rows ::
  "env \<Rightarrow> (string \<times> string) list \<Rightarrow> dict \<Rightarrow> string \<Rightarrow> string \<Rightarrow> nat \<Rightarrow> dict list \<Rightarrow> nat \<Rightarrow> world
   \<Rightarrow> nat \<times> world"
where
  "save_rows env mapping business_unit unit_name file_name index [] total_rows_processed w =
     (total_rows_processed, w)"
| "save_rows env mapping business_unit unit_name file_name index (row # rows) total_rows_processed w =
     (let combined_row = dict_merge business_unit row;
          remapped_row = remap_row mapping combined_row;
          w1 = say (''Appending row '' @ str_nat (index + 1) @ '' for business unit ''
                    @ quoted unit_name @ ''.'') w
      in case save_row env file_name remapped_row (files w1) of
           Inr fs' \<Rightarrow>
             save_rows env mapping business_unit unit_name file_name (index + 1) rows
               (total_rows_processed + 1) (w1\<lparr>files := fs'\<rparr>)
         | Inl e \<Rightarrow>
             save_rows env mapping business_unit unit_name file_name (index + 1) rows
               total_rows_processed
               (say (''Error processing row '' @ str_nat (index + 1) @ '' for business unit ''
                     @ quoted unit_name @ '': '' @ str_error e) w1))"

definition output_file :: "json \<Rightarrow> json \<Rightarrow> string \<Rightarrow> string \<Rightarrow> string" where
  "output_file business_unit_name business_unit_negeri month_name year_input =
     py_str business_unit_name @ ''_'' @ py_str business_unit_negeri @ ''_'' @ month_name
     @ ''_'' @ year_input @ ''.json''"

text \<open>
  The nested function closes over \<^verbatim>\<open>year_input\<close> and \<^verbatim>\<open>CHECKPOINT_FILE\<close>; here
  they are the first arguments. Lines 349 to 395 first: the rows are saved, and the
  number of rows processed is returned with the new state.
\<close>

definition save_related_data ::
  "env \<Rightarrow> string \<Rightarrow> dict list \<Rightarrow> dict \<Rightarrow> (string \<times> string) list \<Rightarrow> string \<Rightarrow> world
   \<Rightarrow> nat \<times> world"
where
  "save_related_data env year_input related_data business_unit mapping month_name w =
     (let business_unit_name = dict_get business_unit ''name'' (JStr ''Unknown'');
          business_unit_negeri =
            dict_get business_unit ''zon.crd8d_negeri@OData.Community.Display.V1.FormattedValue''
              (JStr ''Unknown'')
      in if related_data = []
         then (0, say (''No data retrieved for business unit '' @ quoted (py_str business_unit_name)
                       @ ''. No file will be saved.'') w)
         else
           (let file_name = output_file business_unit_name business_unit_negeri month_name year_input
            in case save_rows env mapping business_unit (py_str business_unit_name) file_name 0
                      related_data 0 w
               of (total_rows_processed, wa) \<Rightarrow>
                 (total_rows_processed,
                  case open_error env file_name of
                    Some e \<Rightarrow>
                      say (''Error reading final JSON file '' @ quoted file_name @ '': '' @ e) wa
                  | None \<Rightarrow>
                      (case files wa file_name of
                         Some final_data \<Rightarrow>
                           say (''Total rows saved in '' @ quoted file_name @ '': ''
                                @ str_nat (length final_data)) wa
                       | None \<Rightarrow>
                           say (''Error reading final JSON file '' @ quoted file_name
                                @ '': [Errno 2] No such file or directory: '' @ quoted file_name) wa))))"

text \<open>Then lines 397 to 418: the checkpoint is reloaded, updated and saved.\<close>

definition remap_and_save_data ::
  "env \<Rightarrow> string \<Rightarrow> string \<Rightarrow> dict list \<Rightarrow> dict \<Rightarrow> (string \<times> string) list \<Rightarrow> string \<Rightarrow> world
   \<Rightarrow> (error + unit) \<times> world"
where
  "remap_and_save_data env year_input CHECKPOINT_FILE related_data business_unit mapping month_name w =
     (let business_unit_name = dict_get business_unit ''name'' (JStr ''Unknown'');
          business_unit_id = dict_get business_unit ''businessunitid'' (JStr ''unknown_id'')
      in case save_related_data env year_input related_data business_unit mapping month_name w
         of (total_rows_processed, w1) \<Rightarrow>
           (let processed_units = load_checkpoint CHECKPOINT_FILE (files w1)
            in case update_checkpoint processed_units business_unit_id business_unit_name
                      total_rows_processed
               of Inl e \<Rightarrow> (Inl e, w1)
                | Inr processed_units' \<Rightarrow>
                    (let w2 = w1\<lparr>files := save_checkpoint CHECKPOINT_FILE processed_units' (files w1)\<rparr>
                     in (Inr (),
                         if total_rows_processed > 0
                         then say (''Saved combined data for business unit ''
                                   @ quoted (py_str business_unit_name)
                                   @ '' and updated checkpoint.'') w2
                         else say (''No data processed for business unit ''
                                   @ quoted (py_str business_unit_name)
                                   @ '', but checkpoint updated.'') w2))))"

section \<open>Matching the units (lines 91, 120 and 167 to 179)\<close>

text \<open>
  \<^verbatim>\<open>any(name in business_unit_name for name in business_unit_names)\<close>: \<^verbatim>\<open>in\<close>
  raises \<^verbatim>\<open>TypeError\<close> when the unit's name is not a string.
\<close>

primrec any_name_in :: "string list \<Rightarrow> json \<Rightarrow> error + bool" where
  "any_name_in [] business_unit_name = Inr False"
| "any_name_in (name # names) business_unit_name =
     (case business_unit_name of
        JStr s \<Rightarrow> if contains name s then Inr True else any_name_in names business_unit_name
      | _ \<Rightarrow> Inl (TypeError (''argument of type '' @ quoted (py_type_name business_unit_name)
                              @ '' is not iterable'')))"

primrec select_matching :: "string list \<Rightarrow> dict list \<Rightarrow> world \<Rightarrow> (error + dict list) \<times> world" where
  "select_matching business_unit_names [] w = (Inr [], w)"
| "select_matching business_unit_names (business_unit # rest) w =
     (let business_unit_name = dict_get business_unit ''name'' (JStr ''Unknown'') in
      case any_name_in business_unit_names business_unit_name of
        Inl e \<Rightarrow> (Inl e, w)
      | Inr found \<Rightarrow>
          (let w1 = (if found
                     then say (''Found matching business unit: '' @ py_str business_unit_name) w
                     else w)
           in case select_matching business_unit_names rest w1 of
                (Inl e, w2) \<Rightarrow> (Inl e, w2)
              | (Inr matching, w2) \<Rightarrow>
                  (Inr (if found then business_unit # matching else matching), w2)))"

section \<open>The loop over the matching units (lines 182 to 421)\<close>

text \<open>The part of the loop body after the skip test, for one unit.\<close>

definition process_unit ::
  "env \<Rightarrow> string \<Rightarrow> string \<Rightarrow> string \<Rightarrow> string \<Rightarrow> dict \<Rightarrow> world \<Rightarrow> (error + unit) \<times> world"
where
  "process_unit env authorization year_input month_numeric month_name business_unit w =
     (let business_unit_id = dict_get business_unit ''businessunitid'' (JStr ''unknown_id'');
          business_unit_name = dict_get business_unit ''name'' (JStr ''Unknown'');
          w1 = say (''Processing business unit: '' @ py_str business_unit_name) w;
          query = Details_query authorization business_unit_id year_input month_numeric;
          response_qr2 = dataverse_get env (trace w1) query;
          w2 = emit (Http query) w1
      in case response_qr2 of
           Request_exception e \<Rightarrow> (Inl (RequestException e), w2)
         | Other_exception e \<Rightarrow> (Inl (OtherError e), w2)
         | Fetched related_data \<Rightarrow>
             (let w3 = (if related_data = []
                        then say (''No data retrieved for business unit ''
                                  @ quoted (py_str business_unit_name) @ ''.'') w2
                        else say (''Total rows retrieved for business unit ''
                                  @ quoted (py_str business_unit_name) @ '': ''
                                  @ str_nat (length related_data)) w2)
              in case enrich_rows env related_data w3 of
                   (Inl e, w4) \<Rightarrow> (Inl e, w4)
                 | (Inr enriched, w4) \<Rightarrow>
                     remap_and_save_data env year_input (checkpoint_file month_name year_input)
                       enriched business_unit key_mapping month_name w4))"

text \<open>
  \<open>processed_units\<close> is the list loaded once at line 164; the loop never reloads it.
\<close>

primrec process_units ::
  "env \<Rightarrow> string \<Rightarrow> string \<Rightarrow> string \<Rightarrow> string \<Rightarrow> dict list \<Rightarrow> dict list \<Rightarrow> world
   \<Rightarrow> (error + unit) \<times> world"
where
  "process_units env authorization year_input month_numeric month_name processed_units [] w =
     (Inr (), w)"
| "process_units env authorization year_input month_numeric month_name processed_units
     (business_unit # rest) w =
     (let business_unit_id = dict_get business_unit ''businessunitid'' (JStr ''unknown_id'');
          business_unit_name = dict_get business_unit ''name'' (JStr ''Unknown'')
      in case any_unit_id processed_units business_unit_id of
           Inl e \<Rightarrow> (Inl e, w)
         | Inr found \<Rightarrow>
             if found
             then process_units env authorization year_input month_numeric month_name processed_units
                    rest (say (''Skipping already processed business unit: ''
                               @ py_str business_unit_name) w)
             else
               (case process_unit env authorization year_input month_numeric month_name
                       business_unit w of
                  (Inl e, w') \<Rightarrow> (Inl e, w')
                | (Inr u, w') \<Rightarrow>
                    process_units env authorization year_input month_numeric month_name
                      processed_units rest w'))"

section \<open>fetch_business_units_and_related_data (lines 60 to 426)\<close>

text \<open>The \<^verbatim>\<open>try\<close> block of lines 155 to 421.\<close>

definition fetch_and_process ::
  "env \<Rightarrow> string \<Rightarrow> string \<Rightarrow> string \<Rightarrow> string \<Rightarrow> string \<Rightarrow> string list \<Rightarrow> world
   \<Rightarrow> (error + unit) \<times> world"
where
  "fetch_and_process env authorization business_unit_names_input year_input month_numeric
     month_name business_unit_names w =
     (let query = Units_query authorization;
          response = dataverse_get env (trace w) query;
          w1 = emit (Http query) w
      in case response of
           Request_exception e \<Rightarrow> (Inl (RequestException e), w1)
         | Other_exception e \<Rightarrow> (Inl (OtherError e), w1)
         | Fetched business_units \<Rightarrow>
             (let w2 = say (''Total business units retrieved: '' @ str_nat (length business_units)) w1;
                  processed_units = load_checkpoint (checkpoint_file month_name year_input) (files w2)
              in case select_matching business_unit_names business_units w2 of
                   (Inl e, w3) \<Rightarrow> (Inl e, w3)
                 | (Inr matching_business_units, w3) \<Rightarrow>
                     if matching_business_units = []
                     then (Inr (), say (''No matching business unit found for input: ''
                                        @ business_unit_names_input) w3)
                     else process_units env authorization year_input month_numeric month_name
                            processed_units matching_business_units w3))"

text \<open>The two handlers of lines 423 to 426: both print, and the function returns.\<close>

definition handle_exceptions :: "(error + unit) \<times> world \<Rightarrow> outcome \<times> world" where
  "handle_exceptions r =
     (case r of
        (Inr u, w) \<Rightarrow> (Finished, w)
      | (Inl (RequestException e), w) \<Rightarrow> (Finished, say (''Error fetching data: '' @ e) w)
      | (Inl e, w) \<Rightarrow> (Finished, say (''Unexpected error: '' @ str_error e) w))"

definition fetch_business_units_and_related_data :: "env \<Rightarrow> world \<Rightarrow> outcome \<times> world" where
  "fetch_business_units_and_related_data env w =
     (case get_access_token env w of
        (Uncaught e, w1) \<Rightarrow> (Crash e, w1)
      | (Exits code, w1) \<Rightarrow> (Exit code, w1)
      | (Returns access_token, w1) \<Rightarrow>
          (let authorization = ''Bearer '' @ py_str access_token;
               w2 = emit (Prompt ''Enter the business unit names (comma-separated): '') w1;
               business_unit_names_input = upper (typed_names env);
               w3 = emit (Prompt ''Enter the year (e.g., 2024): '') w2;
               year_input = typed_year env;
               w4 = emit (Prompt ''Enter the month (e.g., March/Mar/03): '') w3;
               month_input = upper (strip (typed_month env))
           in case resolve_month month_input of
                Invalid_month \<Rightarrow>
                  (Exit 1, say (''Invalid month input: '' @ month_input
                                @ ''. Please enter a valid month.'') w4)
              | Index_error \<Rightarrow> (Crash ''list index out of range'', w4)
              | Month month_numeric month_name \<Rightarrow>
                  (let w5 = say (''Month numeric: '' @ month_numeric @ '', Month name: '' @ month_name) w4;
                       business_unit_names = map strip (split_on (CHR '','') business_unit_names_input)
                   in handle_exceptions
                        (fetch_and_process env authorization business_unit_names_input year_input
                           month_numeric month_name business_unit_names w5))))"

text \<open>Which events are calls over the network.\<close>

fun is_network :: "event \<Rightarrow> bool" where
  "is_network Token_request = True"
| "is_network (Http r) = True"
| "is_network (Print s) = False"
| "is_network (Prompt s) = False"

section \<open>Example environments\<close>

text \<open>A run in which the token is granted and the user types the month \<open>3\<close>.\<close>

definition example_env :: env where
  "example_env =
     \<lparr>acquire_token_for_client = Token_result [(''access_token'', JStr ''secret'')],
      typed_names = ''kkb'', typed_year = ''2024'', typed_month = ''3'',
      dataverse_get = (\<lambda>h q. Fetched []), blob_get = (\<lambda>h u. Request_exception ''timeout''),
      open_error = (\<lambda>f. None)\<rparr>"

text \<open>A run in which \<^verbatim>\<open>acquire_token_for_client\<close> raises.\<close>

definition raising_env :: env where
  "raising_env =
     \<lparr>acquire_token_for_client = Acquire_raises ''connection refused'',
      typed_names = ''kkb'', typed_year = ''2024'', typed_month = ''03'',
      dataverse_get = (\<lambda>h q. Request_exception ''401 Unauthorized''),
      blob_get = (\<lambda>h u. Request_exception ''timeout''),
      open_error = (\<lambda>f. None)\<rparr>"

definition empty_world :: world where
  "empty_world = \<lparr>files = Map.empty, trace = []\<rparr>"

section \<open>Notions of the specification\<close>

text \<open>
  Case-insensitive substring matching as the specification words it: a unit matches if
  some input term occurs in its name when the case of both is ignored.
\<close>

definition spec_matches :: "string list \<Rightarrow> string \<Rightarrow> bool" where
  "spec_matches terms unit_name = (\<exists>t \<in> set terms. sublist (upper t) (upper unit_name))"

text \<open>The ids of a checkpoint list, and the invariant: no id occurs twice.\<close>

definition unit_ids :: "dict list \<Rightarrow> json list" where
  "unit_ids processed_units = List.map_filter (\<lambda>unit. map_of unit ''business_unit_id'') processed_units"

definition checkpoint_unique :: "dict list \<Rightarrow> bool" where
  "checkpoint_unique processed_units = distinct (unit_ids processed_units)"

text \<open>
  What the environment does for image slot \<open>i\<close> of a row. \<open>slot_gives\<close>: the slot is
  absent or empty (then the content is empty), or its download returns the content
  whenever it is asked. \<open>slot_fails\<close>: the slot is present and non-empty, and its
  download raises a \<^verbatim>\<open>RequestException\<close> whenever it is asked.
\<close>

definition slot_gives :: "env \<Rightarrow> dict \<Rightarrow> nat \<Rightarrow> string \<Rightarrow> bool" where
  "slot_gives env row i content =
     (case map_of row (blob_attribute i) of
        None \<Rightarrow> content = []
      | Some blob \<Rightarrow>
          if py_truthy blob
          then (\<forall>h. blob_get env h (base_url @ py_str blob) = Fetched content)
          else content = [])"

definition slot_fails :: "env \<Rightarrow> dict \<Rightarrow> nat \<Rightarrow> bool" where
  "slot_fails env row i =
     (\<exists>blob. map_of row (blob_attribute i) = Some blob \<and> py_truthy blob
        \<and> (\<forall>h. \<exists>e. blob_get env h (base_url @ py_str blob) = Request_exception e))"

text \<open>
  A record as the two FetchXML queries return it: a dictionary (no key twice) without
  any key \<^verbatim>\<open>gambar<i>_base64\<close>, which the queries do not ask for and only the image
  loop adds.
\<close>

definition fetched_record :: "dict \<Rightarrow> bool" where
  "fetched_record d = (distinct (map fst d) \<and> (\<forall>i. map_of d (base64_key i) = None))"

text \<open>An environment in which the image \<open>c.jpg\<close> cannot be downloaded.\<close>

definition image_env :: env where
  "image_env =
     \<lparr>acquire_token_for_client = Token_result [(''access_token'', JStr ''secret'')],
      typed_names = ''kkb'', typed_year = ''2024'', typed_month = ''03'',
      dataverse_get = (\<lambda>h q. Fetched []),
      blob_get = (\<lambda>h u. if u = base_url @ ''c.jpg'' then Request_exception ''timeout''
                          else Fetched ''Man''),
      open_error = (\<lambda>f. None)\<rparr>"

definition image_row :: dict where
  "image_row = [(''crd8d_id'', JStr ''42''), (''crd8d_gambar1_blob'', JStr ''a.jpg''),
                (''crd8d_gambar3_blob'', JStr ''c.jpg''), (''crd8d_gambar4_blob'', JStr [])]"

text \<open>What the image loop stores for a slot whose download gave \<open>content\<close>.\<close>

definition store_image :: "nat \<Rightarrow> string \<Rightarrow> dict \<Rightarrow> dict" where
  "store_image i content row =
     (if content = [] then row else dict_set (base64_key i) (JStr (b64encode content)) row)"

text \<open>The detail queries issued for the unit with a given id.\<close>

fun is_details_query_for :: "json \<Rightarrow> event \<Rightarrow> bool" where
  "is_details_query_for bid (Http (Details_query authorization business_unit_id year month)) =
     (business_unit_id = bid)"
| "is_details_query_for bid e = False"

text \<open>
  From state \<open>w\<close> to state \<open>w'\<close> no detail query for the unit \<open>bid\<close> was issued,
  and the list \<open>cp0\<close>, if the checkpoint file began with it, is still its beginning.
\<close>

definition keeps :: "json \<Rightarrow> string \<Rightarrow> dict list \<Rightarrow> world \<Rightarrow> world \<Rightarrow> bool" where
  "keeps bid file cp0 w w' \<longleftrightarrow>
     filter (is_details_query_for bid) (trace w') = filter (is_details_query_for bid) (trace w)
     \<and> (prefix cp0 (load_checkpoint file (files w)) \<longrightarrow> prefix cp0 (load_checkpoint file (files w')))"

text \<open>
  A rerun for March 2024: the unit \<open>u1\<close> is in the checkpoint with three rows, and the
  server returns it again together with a new unit \<open>u2\<close> that has one detail row.
\<close>

definition rerun_env :: env where
  "rerun_env =
     \<lparr>acquire_token_for_client = Token_result [(''access_token'', JStr ''secret'')],
      typed_names = ''kkb'', typed_year = ''2024'', typed_month = ''mar'',
      dataverse_get = (\<lambda>h q. case q of
          Units_query a \<Rightarrow> Fetched [[(''businessunitid'', JStr ''u1''), (''name'', JStr ''KKB ALPHA'')],
                                    [(''businessunitid'', JStr ''u2''), (''name'', JStr ''KKB BETA'')]]
        | Details_query a b y m \<Rightarrow> Fetched [[(''crd8d_id'', JStr ''7'')]]
        | Image_get u \<Rightarrow> Fetched []),
      blob_get = (\<lambda>h u. Request_exception ''timeout''),
      open_error = (\<lambda>f. None)\<rparr>"

definition rerun_world :: world where
  "rerun_world =
     \<lparr>files = [checkpoint_file ''MAR'' ''2024'' \<mapsto>
                 [[(''business_unit_id'', JStr ''u1''), (''business_unit_name'', JStr ''KKB ALPHA''),
                   (''total_rows'', JNum 3)]]],
      trace = []\<rparr>"





section \<open>Basic facts\<close>

lemma trace_emit: "trace (emit e w) = trace w @ [e]"
  by (simp add: emit_def)

lemma files_emit: "files (emit e w) = files w"
  by (simp add: emit_def)

lemma trace_say: "trace (say s w) = trace w @ [Print s]"
  by (simp add: say_def emit_def)

lemma files_say: "files (say s w) = files w"
  by (simp add: say_def emit_def)

lemma map_of_dict_set: "map_of (dict_set key v d) = (map_of d)(key \<mapsto> v)"
  by (induction d) auto

lemma dict_set_new: "key \<notin> fst ` set d \<Longrightarrow> dict_set key v d = d @ [(key, v)]"
  by (induction d) auto

lemma py_eq_refl: "py_eq v v"
  by (cases v) auto

lemma b64encode_empty_iff: "b64encode content = [] \<longleftrightarrow> content = []"
  by (induction content rule: b64encode.induct) (simp_all add: Let_def)

subsection \<open>Upper-casing commutes with splitting and stripping\<close>

lemma of_char_upper_char:
  "(of_char (upper_char c) :: nat) =
     (if 97 \<le> (of_char c :: nat) \<and> (of_char c :: nat) \<le> 122 then of_char c - 32 else of_char c)"
  by (auto simp: upper_char_def Let_def)

lemma upper_char_comma: "upper_char c = CHR '','' \<longleftrightarrow> c = CHR '',''"
proof -
  have "upper_char c = CHR '','' \<longleftrightarrow> (of_char (upper_char c) :: nat) = of_char (CHR '','')"
    by (simp only: of_char_eq_iff)
  also have "\<dots> \<longleftrightarrow> (of_char c :: nat) = of_char (CHR '','')"
    by (auto simp: of_char_upper_char)
  also have "\<dots> \<longleftrightarrow> c = CHR '',''"
    by (simp only: of_char_eq_iff)
  finally show ?thesis .
qed

lemma is_space_upper_char: "is_space (upper_char c) = is_space c"
  by (auto simp: is_space_def Let_def of_char_upper_char)

lemma upper_strip: "strip (upper s) = upper (strip s)"
proof -
  have c: "is_space \<circ> upper_char = is_space"
    by (rule ext) (simp add: is_space_upper_char)
  show ?thesis
    by (simp add: strip_def upper_def dropWhile_map rev_map c)
qed

lemma upper_split: "split_on (CHR '','') (upper s) = map upper (split_on (CHR '','') s)"
proof (induction s)
  case Nil
  then show ?case by (simp add: upper_def)
next
  case (Cons c s)
  then show ?case
    by (cases "split_on (CHR '','') s") (auto simp: upper_def upper_char_comma)
qed

lemma names_of_upper:
  "map strip (split_on (CHR '','') (upper s)) = map upper (map strip (split_on (CHR '','') s))"
  by (simp add: upper_split upper_strip)

lemma contains_sublist: "contains t s = sublist t s"
  by (induction s) (simp_all add: sublist_Cons_right)

subsection \<open>The month table\<close>

lemma resolve_invalid_iff: "resolve_month s = Invalid_month \<longleftrightarrow> s \<notin> fst ` set month_mapping"
  unfolding resolve_month_def
  by (auto simp: map_of_eq_None_iff rev_image_eqI split: option.splits list.splits dest!: map_of_SomeD)

lemma month_keys: "fst ` set month_mapping =
  {''01'', ''JANUARY'', ''JAN'', ''02'', ''FEBRUARY'', ''FEB'', ''03'', ''MARCH'', ''MAR'',
   ''04'', ''APRIL'', ''APR'', ''05'', ''MAY'', ''06'', ''JUNE'', ''JUN'', ''07'', ''JULY'', ''JUL'',
   ''08'', ''AUGUST'', ''AUG'', ''09'', ''SEPTEMBER'', ''SEP'', ''10'', ''OCTOBER'', ''OCT'',
   ''11'', ''NOVEMBER'', ''NOV'', ''12'', ''DECEMBER'', ''DEC''}"
  unfolding month_mapping_def by (simp add: insert_commute)

lemma month_keys_length: "k \<in> fst ` set month_mapping \<Longrightarrow> 2 \<le> length k"
  unfolding month_mapping_def by auto

lemma single_digit_normal:
  assumes "d < 10"
  shows "upper (strip [digit_char d]) = [digit_char d]"
proof -
  have c: "(of_char (digit_char d) :: nat) = 48 + d"
    using assms by (simp add: digit_char_def)
  have s: "\<not> is_space (digit_char d)"
    using assms by (simp add: is_space_def c)
  have "(of_char (upper_char (digit_char d)) :: nat) = of_char (digit_char d)"
    using assms by (simp add: of_char_upper_char c)
  then have u: "upper_char (digit_char d) = digit_char d"
    by (simp only: of_char_eq_iff)
  show ?thesis
    by (simp add: strip_def upper_def s u)
qed

lemma str_nat_3: "str_nat 3 = ''3''"
  by code_simp

lemma run_invalid_month:
  assumes "resolve_month (upper (strip (typed_month env))) = Invalid_month"
  shows "case acquire_token_for_client env of
           App_raises e \<Rightarrow> fetch_business_units_and_related_data env w = (Crash e, w)
         | _ \<Rightarrow> fst (fetch_business_units_and_related_data env w) = Exit 1
               \<and> filter is_network (trace (snd (fetch_business_units_and_related_data env w)))
                   = filter is_network (trace w) @ [Token_request]
               \<and> files (snd (fetch_business_units_and_related_data env w)) = files w"
  using assms
  by (simp add: fetch_business_units_and_related_data_def get_access_token_def Let_def
        trace_emit trace_say files_emit files_say
        split: acquired.splits option.splits)

lemmas eval_defs = fetch_business_units_and_related_data_def get_access_token_def Let_def
        trace_emit trace_say files_emit files_say example_env_def empty_world_def
        upper_def strip_def is_space_def upper_char_def resolve_month_def month_mapping_def

lemma example_month_invalid: "upper (strip (typed_month example_env)) \<notin> fst ` set month_mapping"
  by (simp add: example_env_def upper_def strip_def is_space_def upper_char_def month_keys)

subsection \<open>The field table\<close>

lemma remap_fold:
  "distinct (map snd mapping) \<Longrightarrow> set (map snd mapping) \<inter> fst ` set acc = {} \<Longrightarrow>
   foldl (\<lambda>d (old_key, new_key). dict_set new_key (dict_get c old_key dflt) d) acc mapping
   = acc @ map (\<lambda>(old_key, new_key). (new_key, dict_get c old_key dflt)) mapping"
proof (induction mapping arbitrary: acc)
  case Nil
  then show ?case by simp
next
  case (Cons p mapping)
  obtain old_key new_key where p: "p = (old_key, new_key)" by (cases p)
  from Cons.prems have fresh: "new_key \<notin> fst ` set acc" by (auto simp: p)
  have step: "dict_set new_key (dict_get c old_key dflt) acc = acc @ [(new_key, dict_get c old_key dflt)]"
    by (rule dict_set_new [OF fresh])
  from Cons.prems have "distinct (map snd mapping)"
    and "set (map snd mapping) \<inter> fst ` set (acc @ [(new_key, dict_get c old_key dflt)]) = {}"
    by (auto simp: p)
  from Cons.IH [OF this] show ?case by (simp add: p step)
qed

lemma remap_row_eq:
  "distinct (map snd mapping) \<Longrightarrow>
   remap_row mapping c = map (\<lambda>(old_key, new_key). (new_key, dict_get c old_key (JStr []))) mapping"
  unfolding remap_row_def using remap_fold [of mapping "[]" c "JStr []"] by simp

lemma distinct_key_mapping: "distinct (map snd key_mapping)"
  unfolding key_mapping_def by simp

lemma map_of_remapped:
  assumes "distinct (map snd mapping)" "(old_key, new_key) \<in> set mapping"
  shows "map_of (map (\<lambda>(old_key, new_key). (new_key, dict_get c old_key dflt)) mapping) new_key
         = Some (dict_get c old_key dflt)"
  using assms
proof (induction mapping)
  case Nil
  then show ?case by simp
next
  case (Cons p mapping)
  then show ?case by (cases p) (auto simp: rev_image_eqI)
qed

lemma map_of_remap_row:
  assumes "(old_key, new_key) \<in> set key_mapping"
  shows "map_of (remap_row key_mapping c) new_key = Some (dict_get c old_key (JStr []))"
  using map_of_remapped [OF distinct_key_mapping assms, of c "JStr []"]
  by (simp add: remap_row_eq [OF distinct_key_mapping])

subsection \<open>Matching\<close>

lemma any_name_in_str: "any_name_in names (JStr s) = Inr (\<exists>t \<in> set names. contains t s)"
  by (induction names) simp_all

lemma select_matching_str:
  assumes "\<forall>u \<in> set units. \<exists>s. dict_get u ''name'' (JStr ''Unknown'') = JStr s"
  shows "fst (select_matching names units w) =
         Inr (filter (\<lambda>u. \<exists>t \<in> set names. contains t (py_str (dict_get u ''name'' (JStr ''Unknown'')))) units)"
  using assms
proof (induction units arbitrary: w)
  case Nil
  show ?case by simp
next
  case (Cons u units)
  from Cons.prems obtain s where s: "dict_get u ''name'' (JStr ''Unknown'') = JStr s"
    by auto
  from Cons.prems have rest: "\<forall>u \<in> set units. \<exists>s. dict_get u ''name'' (JStr ''Unknown'') = JStr s"
    by simp
  let ?F = "filter (\<lambda>u. \<exists>t \<in> set names. contains t (py_str (dict_get u ''name'' (JStr ''Unknown'')))) units"
  have IH: "\<And>w'. fst (select_matching names units w') = Inr ?F"
    by (rule Cons.IH [OF rest])
  show ?case
  proof (cases "\<exists>t \<in> set names. contains t s")
    case True
    let ?w = "say (''Found matching business unit: '' @ s) w"
    obtain r w2 where eq: "select_matching names units ?w = (r, w2)"
      by (rule prod.exhaust)
    from IH [of ?w] have r: "r = Inr ?F"
      by (simp only: eq fst_conv)
    from True show ?thesis
      by (simp only: select_matching.simps Let_def s any_name_in_str sum.case if_True prod.case
            fst_conv filter.simps py_str.simps eq r)
  next
    case False
    obtain r w2 where eq: "select_matching names units w = (r, w2)"
      by (rule prod.exhaust)
    from IH [of w] have r: "r = Inr ?F"
      by (simp only: eq fst_conv)
    from False show ?thesis
      by (simp only: select_matching.simps Let_def s any_name_in_str sum.case if_False prod.case
            fst_conv filter.simps py_str.simps eq r)
  qed
qed

lemma upper_kkb: "upper ''kkb'' = ''KKB''"
  by code_simp

lemma upper_Kkb_Alpha: "upper ''Kkb Alpha'' = ''KKB ALPHA''"
  by code_simp

lemma upper_KKB_ALPHA: "upper ''KKB ALPHA'' = ''KKB ALPHA''"
  by code_simp

lemma names_kkb: "map strip (split_on (CHR '','') ''kkb'') = [''kkb'']"
  by code_simp

lemma names_KKB: "map strip (split_on (CHR '','') ''KKB'') = [''KKB'']"
  by code_simp

lemma sublist_KKB: "sublist ''KKB'' ''KKB ALPHA''"
  by code_simp

lemma not_sublist_KKB: "\<not> sublist ''KKB'' ''Kkb Alpha''"
  by code_simp

lemma not_contains_KKB: "\<not> contains ''KKB'' ''Kkb Alpha''"
  by code_simp

subsection \<open>The checkpoint list\<close>

lemma unit_ids_append: "unit_ids (xs @ ys) = unit_ids xs @ unit_ids ys"
  by (simp add: unit_ids_def map_filter_def)

lemma any_unit_id_False:
  "any_unit_id processed_units bid = Inr False \<Longrightarrow> \<forall>v \<in> set (unit_ids processed_units). \<not> py_eq v bid"
  by (induction processed_units) (auto simp: unit_ids_def split: option.splits if_splits)

lemma set_total_rows_ids:
  "set_total_rows processed_units bid n = Inr units' \<Longrightarrow> unit_ids units' = unit_ids processed_units"
proof (induction processed_units arbitrary: units')
  case Nil
  then show ?case by simp
next
  case (Cons u us)
  then show ?case
    by (auto simp: unit_ids_def map_of_dict_set split: option.splits if_splits sum.splits)
qed

lemma update_checkpoint_unique:
  assumes "checkpoint_unique processed_units"
    and "update_checkpoint processed_units bid bname n = Inr units'"
  shows "checkpoint_unique units'"
proof (cases "any_unit_id processed_units bid")
  case (Inl e)
  with assms(2) show ?thesis by (simp add: update_checkpoint_def)
next
  case (Inr found)
  show ?thesis
  proof (cases found)
    case True
    with Inr assms(2) have "set_total_rows processed_units bid n = Inr units'"
      by (simp add: update_checkpoint_def)
    from set_total_rows_ids [OF this] assms(1) show ?thesis
      by (simp add: checkpoint_unique_def)
  next
    case False
    with Inr assms(2) have u: "units' = processed_units @
                    [[(''business_unit_id'', bid), (''business_unit_name'', bname),
                      (''total_rows'', JNum (int n))]]"
      by (simp add: update_checkpoint_def)
    from False Inr have "\<forall>v \<in> set (unit_ids processed_units). \<not> py_eq v bid"
      using any_unit_id_False by simp
    then have "bid \<notin> set (unit_ids processed_units)"
      using py_eq_refl by blast
    with assms(1) show ?thesis
      by (simp add: u checkpoint_unique_def unit_ids_append) (simp add: unit_ids_def)
  qed
qed

lemma any_unit_id_total:
  "\<forall>u \<in> set processed_units. map_of u ''business_unit_id'' \<noteq> None \<Longrightarrow>
   \<exists>found. any_unit_id processed_units bid = Inr found"
  by (induction processed_units) auto

lemma set_total_rows_total:
  "\<forall>u \<in> set processed_units. map_of u ''business_unit_id'' \<noteq> None \<Longrightarrow>
   \<exists>units'. set_total_rows processed_units bid n = Inr units'"
  by (induction processed_units) auto

lemma update_checkpoint_total:
  assumes "\<forall>u \<in> set processed_units. map_of u ''business_unit_id'' \<noteq> None"
  shows "\<exists>units'. update_checkpoint processed_units bid bname n = Inr units'"
  using any_unit_id_total [OF assms, of bid] set_total_rows_total [OF assms, of bid n]
  by (auto simp: update_checkpoint_def)

subsection \<open>The image loop\<close>

lemma upt_1_6: "[1..<6] = [1, 2, 3, 4, 5::nat]"
  by (simp add: upt_rec)

lemma blob_attribute_values:
  "blob_attribute 1 = ''crd8d_gambar1_blob''" "blob_attribute 2 = ''crd8d_gambar2_blob''"
  "blob_attribute 3 = ''crd8d_gambar3_blob''" "blob_attribute 4 = ''crd8d_gambar4_blob''"
  "blob_attribute 5 = ''crd8d_gambar5_blob''" "blob_attribute (Suc 0) = ''crd8d_gambar1_blob''"
  by code_simp+

lemma base64_key_values:
  "base64_key 1 = ''gambar1_base64''" "base64_key 2 = ''gambar2_base64''"
  "base64_key 3 = ''gambar3_base64''" "base64_key 4 = ''gambar4_base64''"
  "base64_key 5 = ''gambar5_base64''" "base64_key (Suc 0) = ''gambar1_base64''"
  by code_simp+

lemma blob_attribute_not_base64_key: "blob_attribute i \<noteq> base64_key j"
  by (simp add: blob_attribute_def base64_key_def)

lemma keys_dict_set: "fst ` set (dict_set key v d) = insert key (fst ` set d)"
  by (induction d) auto

lemma distinct_dict_set: "distinct (map fst d) \<Longrightarrow> distinct (map fst (dict_set key v d))"
  by (induction d) (auto simp: keys_dict_set)

lemma map_of_dict_merge:
  "distinct (map fst b) \<Longrightarrow>
   map_of (dict_merge a b) key = (case map_of b key of Some v \<Rightarrow> Some v | None \<Rightarrow> map_of a key)"
  unfolding dict_merge_def
proof (induction b arbitrary: a)
  case Nil
  then show ?case by simp
next
  case (Cons p b)
  obtain k v where p: "p = (k, v)" by (cases p)
  from Cons.prems have d: "distinct (map fst b)" and k: "k \<notin> fst ` set b"
    by (auto simp: p)
  from k have none: "map_of b k = None"
    by (simp add: map_of_eq_None_iff)
  show ?case
    using Cons.IH [OF d, of "dict_set k v a"] none
    by (auto simp: p map_of_dict_set split: option.splits)
qed

lemma enrich_slot_gives:
  assumes "slot_gives env row i content"
  shows "\<exists>w'. enrich_slot env i row w = (Inr (store_image i content row), w')"
proof (cases "map_of row (blob_attribute i)")
  case None
  with assms show ?thesis
    by (simp add: enrich_slot_def slot_gives_def store_image_def)
next
  case (Some blob)
  show ?thesis
  proof (cases "py_truthy blob")
    case False
    with Some assms show ?thesis
      by (simp add: enrich_slot_def slot_gives_def store_image_def)
  next
    case True
    with Some assms have "\<And>h. blob_get env h (base_url @ py_str blob) = Fetched content"
      by (simp add: slot_gives_def)
    with Some True show ?thesis
      by (simp add: enrich_slot_def download_and_convert_to_base64_def Let_def store_image_def
            b64encode_empty_iff)
  qed
qed

lemma enrich_slot_fails:
  assumes "slot_fails env row i"
  shows "\<exists>w'. enrich_slot env i row w = (Inr row, w')"
proof -
  from assms obtain blob where b: "map_of row (blob_attribute i) = Some blob" "py_truthy blob"
    and f: "\<And>h. \<exists>e. blob_get env h (base_url @ py_str blob) = Request_exception e"
    by (auto simp: slot_fails_def)
  let ?w1 = "say (''Attempting to download image from: '' @ base_url @ py_str blob) w"
  from f [of "trace ?w1"] obtain e
    where "blob_get env (trace ?w1) (base_url @ py_str blob) = Request_exception e" ..
  with b show ?thesis
    by (simp add: enrich_slot_def download_and_convert_to_base64_def Let_def)
qed

lemma slot_gives_store:
  "slot_gives env (store_image j c row) i content = slot_gives env row i content"
  by (simp add: slot_gives_def store_image_def map_of_dict_set blob_attribute_not_base64_key)

lemma slot_fails_store:
  "slot_fails env (store_image j c row) i = slot_fails env row i"
  by (simp add: slot_fails_def store_image_def map_of_dict_set blob_attribute_not_base64_key)

lemma enrich_row_slot3_fails:
  assumes "slot_gives env row 1 c1" "slot_gives env row 2 c2" "slot_fails env row 3"
    "slot_gives env row 4 c4" "slot_gives env row 5 c5"
  shows "\<exists>w'. enrich_row env row w
           = (Inr (store_image 5 c5 (store_image 4 c4 (store_image 2 c2 (store_image 1 c1 row)))), w')"
proof -
  let ?r1 = "store_image 1 c1 row"
  let ?r2 = "store_image 2 c2 ?r1"
  let ?r4 = "store_image 4 c4 ?r2"
  let ?r5 = "store_image 5 c5 ?r4"
  from enrich_slot_gives [OF assms(1)] obtain w1
    where s1: "enrich_slot env 1 row w = (Inr ?r1, w1)" by blast
  have "slot_gives env ?r1 2 c2" using assms(2) by (simp add: slot_gives_store)
  from enrich_slot_gives [OF this] obtain w2
    where s2: "enrich_slot env 2 ?r1 w1 = (Inr ?r2, w2)" by blast
  have "slot_fails env ?r2 3" using assms(3) by (simp add: slot_fails_store)
  from enrich_slot_fails [OF this] obtain w3
    where s3: "enrich_slot env 3 ?r2 w2 = (Inr ?r2, w3)" by blast
  have "slot_gives env ?r2 4 c4" using assms(4) by (simp add: slot_gives_store)
  from enrich_slot_gives [OF this] obtain w4
    where s4: "enrich_slot env 4 ?r2 w3 = (Inr ?r4, w4)" by blast
  have "slot_gives env ?r4 5 c5" using assms(5) by (simp add: slot_gives_store)
  from enrich_slot_gives [OF this] obtain w5
    where s5: "enrich_slot env 5 ?r4 w4 = (Inr ?r5, w5)" by blast
  have "enrich_row env row w = (Inr ?r5, w5)"
    unfolding enrich_row_def upt_1_6
    by (simp only: enrich_slots.simps s1 s2 s3 s4 s5 prod.case sum.case)
  then show ?thesis by blast
qed

lemma map_of_store_image:
  "map_of (store_image i c row) key =
     (if c \<noteq> [] \<and> key = base64_key i then Some (JStr (b64encode c)) else map_of row key)"
  by (simp add: store_image_def map_of_dict_set)

lemma distinct_store_image: "distinct (map fst row) \<Longrightarrow> distinct (map fst (store_image i c row))"
  by (simp add: store_image_def distinct_dict_set)

lemma image_keys_in_table:
  "(''gambar1_base64'', ''image1_full'') \<in> set key_mapping"
  "(''gambar2_base64'', ''image2_full'') \<in> set key_mapping"
  "(''gambar3_base64'', ''image3_full'') \<in> set key_mapping"
  "(''gambar4_base64'', ''image4_full'') \<in> set key_mapping"
  "(''gambar5_base64'', ''image5_full'') \<in> set key_mapping"
  by (simp_all add: key_mapping_def)

lemma fetched_record_keys:
  assumes "fetched_record d"
  shows "map_of d ''gambar1_base64'' = None" "map_of d ''gambar2_base64'' = None"
    "map_of d ''gambar3_base64'' = None" "map_of d ''gambar4_base64'' = None"
    "map_of d ''gambar5_base64'' = None"
proof -
  from assms have n: "\<And>i. map_of d (base64_key i) = None"
    by (simp add: fetched_record_def)
  from n [of 1] show "map_of d ''gambar1_base64'' = None" by (simp only: base64_key_values)
  from n [of 2] show "map_of d ''gambar2_base64'' = None" by (simp only: base64_key_values)
  from n [of 3] show "map_of d ''gambar3_base64'' = None" by (simp only: base64_key_values)
  from n [of 4] show "map_of d ''gambar4_base64'' = None" by (simp only: base64_key_values)
  from n [of 5] show "map_of d ''gambar5_base64'' = None" by (simp only: base64_key_values)
qed

lemma output_images:
  fixes c1 c2 c4 c5 :: string
  assumes "fetched_record business_unit" "fetched_record row"
    and row': "row' = store_image 5 c5 (store_image 4 c4 (store_image 2 c2 (store_image 1 c1 row)))"
    and out: "out = remap_row key_mapping (dict_merge business_unit row')"
  shows "map_of out ''image1_full'' = Some (JStr (b64encode c1))"
    "map_of out ''image2_full'' = Some (JStr (b64encode c2))"
    "map_of out ''image3_full'' = Some (JStr [])"
    "map_of out ''image4_full'' = Some (JStr (b64encode c4))"
    "map_of out ''image5_full'' = Some (JStr (b64encode c5))"
proof -
  from assms(2) have "distinct (map fst row)" by (simp add: fetched_record_def)
  then have d: "distinct (map fst row')"
    unfolding row' by (intro distinct_store_image)
  note look = map_of_dict_merge [OF d, of business_unit]
  note keys = fetched_record_keys [OF assms(1)] fetched_record_keys [OF assms(2)]
  show "map_of out ''image1_full'' = Some (JStr (b64encode c1))"
    unfolding out map_of_remap_row [OF image_keys_in_table(1)] dict_get_def look
    by (simp add: row' map_of_store_image base64_key_values keys)
  show "map_of out ''image2_full'' = Some (JStr (b64encode c2))"
    unfolding out map_of_remap_row [OF image_keys_in_table(2)] dict_get_def look
    by (simp add: row' map_of_store_image base64_key_values keys)
  show "map_of out ''image3_full'' = Some (JStr [])"
    unfolding out map_of_remap_row [OF image_keys_in_table(3)] dict_get_def look
    by (simp add: row' map_of_store_image base64_key_values keys)
  show "map_of out ''image4_full'' = Some (JStr (b64encode c4))"
    unfolding out map_of_remap_row [OF image_keys_in_table(4)] dict_get_def look
    by (simp add: row' map_of_store_image base64_key_values keys)
  show "map_of out ''image5_full'' = Some (JStr (b64encode c5))"
    unfolding out map_of_remap_row [OF image_keys_in_table(5)] dict_get_def look
    by (simp add: row' map_of_store_image base64_key_values keys)
qed

lemma b64encode_Man: "b64encode ''Man'' = ''TWFu''"
  by code_simp

subsection \<open>What a run keeps: no query for a unit of the checkpoint, and the checkpoint's beginning\<close>

lemma keeps_refl [simp]: "keeps bid f cp w w"
  by (simp add: keeps_def)

lemma keeps_trans: "keeps bid f cp w w1 \<Longrightarrow> keeps bid f cp w1 w2 \<Longrightarrow> keeps bid f cp w w2"
  by (simp add: keeps_def)

lemma keeps_say: "keeps bid f cp w w1 \<Longrightarrow> keeps bid f cp w (say s w1)"
  by (simp add: keeps_def trace_say files_say)

lemma keeps_emit:
  "\<not> is_details_query_for bid e \<Longrightarrow> keeps bid f cp w w1 \<Longrightarrow> keeps bid f cp w (emit e w1)"
  by (simp add: keeps_def trace_emit files_emit)

lemma keeps_case_sum:
  assumes "keeps bid f cp w (snd p)"
    and "\<And>r. keeps bid f cp (snd p) (snd (g r (snd p)))"
  shows "keeps bid f cp w (snd (case p of (Inl e, w1) \<Rightarrow> (Inl e, w1) | (Inr r, w1) \<Rightarrow> g r w1))"
proof (cases p)
  case (Pair x w1)
  show ?thesis
  proof (cases x)
    case (Inl e)
    with Pair assms(1) show ?thesis by simp
  next
    case (Inr r)
    from assms(1) assms(2) [of r] have "keeps bid f cp w (snd (g r w1))"
      unfolding Pair by (auto intro: keeps_trans)
    with Pair Inr show ?thesis by simp
  qed
qed

lemma download_keeps: "keeps bid f cp w (snd (download_and_convert_to_base64 env url w))"
  by (simp add: download_and_convert_to_base64_def Let_def keeps_say keeps_emit split: fetched.splits)

lemma enrich_slot_keeps: "keeps bid f cp w (snd (enrich_slot env i row w))"
proof (cases "map_of row (blob_attribute i)")
  case None
  then show ?thesis by (simp add: enrich_slot_def)
next
  case (Some blob)
  show ?thesis
  proof (cases "py_truthy blob")
    case False
    with Some show ?thesis by (simp add: enrich_slot_def)
  next
    case True
    have "keeps bid f cp w
            (snd (case download_and_convert_to_base64 env (base_url @ py_str blob) w of
                    (Inl e, w') \<Rightarrow> (Inl e, w')
                  | (Inr base64_image, w') \<Rightarrow>
                      if py_truthy base64_image
                      then (Inr (dict_set (base64_key i) base64_image row), w')
                      else (Inr row, say (''Failed to process image: '' @ base_url @ py_str blob) w')))"
      by (rule keeps_case_sum) (simp_all add: download_keeps keeps_say)
    with Some True show ?thesis by (simp add: enrich_slot_def Let_def)
  qed
qed

lemma enrich_slots_keeps: "keeps bid f cp w (snd (enrich_slots env slots row w))"
proof (induction slots arbitrary: row w)
  case Nil
  show ?case by simp
next
  case (Cons i slots)
  show ?case
    unfolding enrich_slots.simps
    by (rule keeps_case_sum) (rule enrich_slot_keeps, rule Cons.IH)
qed

lemma enrich_row_keeps: "keeps bid f cp w (snd (enrich_row env row w))"
  by (simp add: enrich_row_def enrich_slots_keeps)

lemma enrich_rows_keeps: "keeps bid f cp w (snd (enrich_rows env rows w))"
proof (induction rows arbitrary: w)
  case Nil
  show ?case by simp
next
  case (Cons row rows)
  show ?case
    unfolding enrich_rows.simps
  proof (rule keeps_case_sum)
    show "keeps bid f cp w (snd (enrich_row env row w))"
      by (rule enrich_row_keeps)
  next
    fix r
    show "keeps bid f cp (snd (enrich_row env row w))
            (snd (case enrich_rows env rows (snd (enrich_row env row w)) of
                    (Inl e, w'') \<Rightarrow> (Inl e, w'')
                  | (Inr rows', w'') \<Rightarrow> (Inr (r # rows'), w'')))"
      by (rule keeps_case_sum) (rule Cons.IH, simp)
  qed
qed

lemma select_matching_keeps: "keeps bid f cp w (snd (select_matching names units w))"
proof (induction units arbitrary: w)
  case Nil
  show ?case by simp
next
  case (Cons u units)
  show ?case
  proof (cases "any_name_in names (dict_get u ''name'' (JStr ''Unknown''))")
    case (Inl e)
    then show ?thesis by (simp add: Let_def)
  next
    case (Inr found)
    let ?w1 = "if found then say (''Found matching business unit: ''
                                   @ py_str (dict_get u ''name'' (JStr ''Unknown''))) w else w"
    have k1: "keeps bid f cp w ?w1"
      by (simp add: keeps_say)
    have "keeps bid f cp w
            (snd (case select_matching names units ?w1 of
                    (Inl e, w2) \<Rightarrow> (Inl e, w2)
                  | (Inr matching, w2) \<Rightarrow> (Inr (if found then u # matching else matching), w2)))"
      by (rule keeps_case_sum) (rule keeps_trans [OF k1 Cons.IH], simp)
    then show ?thesis
      by (simp only: select_matching.simps Let_def Inr sum.case)
  qed
qed

lemma load_save_row:
  "save_row env g r fs = Inr fs' \<Longrightarrow>
   load_checkpoint f fs' = (if g = f then load_checkpoint f fs @ [r] else load_checkpoint f fs)"
  by (auto simp: load_checkpoint_def save_row_def split: option.splits)

lemma save_rows_keeps: "keeps bid f cp w (snd (save_rows env mapping bu name g i rows n w))"
proof (induction rows arbitrary: i n w)
  case Nil
  show ?case by simp
next
  case (Cons row rows)
  let ?r = "remap_row mapping (dict_merge bu row)"
  let ?w1 = "say (''Appending row '' @ str_nat (i + 1) @ '' for business unit '' @ quoted name @ ''.'') w"
  show ?case
  proof (cases "save_row env g ?r (files ?w1)")
    case (Inr fs')
    have k: "keeps bid f cp w (?w1\<lparr>files := fs'\<rparr>)"
      using load_save_row [OF Inr, of f]
      by (simp add: keeps_def trace_say files_say)
    have "keeps bid f cp w (snd (save_rows env mapping bu name g (i + 1) rows (n + 1) (?w1\<lparr>files := fs'\<rparr>)))"
      by (rule keeps_trans [OF k Cons.IH])
    with Inr show ?thesis
      by (simp only: save_rows.simps Let_def sum.case)
  next
    case (Inl e)
    let ?w2 = "say (''Error processing row '' @ str_nat (i + 1) @ '' for business unit ''
                    @ quoted name @ '': '' @ str_error e) ?w1"
    have k: "keeps bid f cp w ?w2"
      by (simp add: keeps_say)
    have "keeps bid f cp w (snd (save_rows env mapping bu name g (i + 1) rows n ?w2))"
      by (rule keeps_trans [OF k Cons.IH])
    with Inl show ?thesis
      by (simp only: save_rows.simps Let_def sum.case)
  qed
qed

lemma save_related_data_keeps:
  "keeps bid f cp w (snd (save_related_data env year rows bu mapping mname w))"
proof (cases "rows = []")
  case True
  then show ?thesis by (simp add: save_related_data_def keeps_say)
next
  case False
  let ?g = "output_file (dict_get bu ''name'' (JStr ''Unknown''))
              (dict_get bu ''zon.crd8d_negeri@OData.Community.Display.V1.FormattedValue'' (JStr ''Unknown''))
              mname year"
  let ?p = "save_rows env mapping bu (py_str (dict_get bu ''name'' (JStr ''Unknown''))) ?g 0 rows 0 w"
  have k: "keeps bid f cp w (snd ?p)"
    by (rule save_rows_keeps)
  from False k show ?thesis
    by (simp add: save_related_data_def Let_def case_prod_beta keeps_say split: option.splits)
qed

lemma any_unit_id_append:
  "any_unit_id cp0 b = Inr False \<Longrightarrow> any_unit_id (cp0 @ ext) b = any_unit_id ext b"
  by (induction cp0) (auto split: option.splits if_splits)

lemma set_total_rows_append:
  "any_unit_id cp0 b = Inr False \<Longrightarrow>
   set_total_rows (cp0 @ ext) b n =
     (case set_total_rows ext b n of Inl e \<Rightarrow> Inl e | Inr ext' \<Rightarrow> Inr (cp0 @ ext'))"
  by (induction cp0) (auto split: option.splits if_splits sum.splits)

lemma update_checkpoint_prefix:
  assumes "any_unit_id cp0 b = Inr False" and "prefix cp0 cur"
    and "update_checkpoint cur b name n = Inr units'"
  shows "prefix cp0 units'"
proof -
  from assms(2) obtain ext where cur: "cur = cp0 @ ext"
    by (auto elim: prefixE)
  from assms(3) show ?thesis
    unfolding cur update_checkpoint_def any_unit_id_append [OF assms(1)]
      set_total_rows_append [OF assms(1)]
    by (auto split: sum.splits if_splits)
qed

lemma remap_and_save_data_keeps:
  assumes "any_unit_id cp0 (dict_get bu ''businessunitid'' (JStr ''unknown_id'')) = Inr False"
  shows "keeps bid file cp0 w (snd (remap_and_save_data env year file rows bu mapping mname w))"
proof -
  let ?p = "save_related_data env year rows bu mapping mname w"
  let ?b = "dict_get bu ''businessunitid'' (JStr ''unknown_id'')"
  let ?u = "update_checkpoint (load_checkpoint file (files (snd ?p))) ?b
              (dict_get bu ''name'' (JStr ''Unknown'')) (fst ?p)"
  have k: "keeps bid file cp0 w (snd ?p)"
    by (rule save_related_data_keeps)
  show ?thesis
  proof (cases ?u)
    case (Inl e)
    with k show ?thesis
      by (simp add: remap_and_save_data_def Let_def case_prod_beta)
  next
    case (Inr units')
    have "keeps bid file cp0 (snd ?p) ((snd ?p)\<lparr>files := save_checkpoint file units' (files (snd ?p))\<rparr>)"
      using update_checkpoint_prefix [OF assms _ Inr]
      by (simp add: keeps_def load_checkpoint_def save_checkpoint_def)
    from keeps_trans [OF k this] Inr show ?thesis
      by (simp add: remap_and_save_data_def Let_def case_prod_beta keeps_say)
  qed
qed

lemma process_unit_keeps:
  assumes "any_unit_id cp0 (dict_get bu ''businessunitid'' (JStr ''unknown_id'')) = Inr False"
    and "dict_get bu ''businessunitid'' (JStr ''unknown_id'') \<noteq> bid"
  shows "keeps bid (checkpoint_file mname year) cp0 w
           (snd (process_unit env auth year mnum mname bu w))"
proof -
  let ?b = "dict_get bu ''businessunitid'' (JStr ''unknown_id'')"
  let ?name = "dict_get bu ''name'' (JStr ''Unknown'')"
  let ?w1 = "say (''Processing business unit: '' @ py_str ?name) w"
  let ?q = "Details_query auth ?b year mnum"
  let ?w2 = "emit (Http ?q) ?w1"
  have k2: "keeps bid (checkpoint_file mname year) cp0 w ?w2"
    using assms(2) by (simp add: keeps_say keeps_emit)
  show ?thesis
  proof (cases "dataverse_get env (trace ?w1) ?q")
    case (Request_exception e)
    with k2 show ?thesis by (simp add: process_unit_def Let_def)
  next
    case (Other_exception e)
    with k2 show ?thesis by (simp add: process_unit_def Let_def)
  next
    case (Fetched related_data)
    let ?w3 = "if related_data = []
               then say (''No data retrieved for business unit '' @ quoted (py_str ?name) @ ''.'') ?w2
               else say (''Total rows retrieved for business unit '' @ quoted (py_str ?name) @ '': ''
                         @ str_nat (length related_data)) ?w2"
    have k3: "keeps bid (checkpoint_file mname year) cp0 w ?w3"
      using k2 by (simp add: keeps_say)
    have "keeps bid (checkpoint_file mname year) cp0 w
            (snd (case enrich_rows env related_data ?w3 of
                    (Inl e, w4) \<Rightarrow> (Inl e, w4)
                  | (Inr enriched, w4) \<Rightarrow>
                      remap_and_save_data env year (checkpoint_file mname year) enriched bu
                        key_mapping mname w4))"
      by (rule keeps_case_sum)
         (rule keeps_trans [OF k3 enrich_rows_keeps], rule remap_and_save_data_keeps [OF assms(1)])
    with Fetched show ?thesis
      by (simp only: process_unit_def Let_def fetched.case)
  qed
qed

lemma process_units_keeps:
  assumes "\<exists>v \<in> set (unit_ids cp0). py_eq v bid"
  shows "keeps bid (checkpoint_file mname year) cp0 w
           (snd (process_units env auth year mnum mname cp0 units w))"
proof (induction units arbitrary: w)
  case Nil
  show ?case by simp
next
  case (Cons bu units)
  let ?b = "dict_get bu ''businessunitid'' (JStr ''unknown_id'')"
  let ?name = "dict_get bu ''name'' (JStr ''Unknown'')"
  show ?case
  proof (cases "any_unit_id cp0 ?b")
    case (Inl e)
    then show ?thesis by (simp add: Let_def)
  next
    case (Inr found)
    show ?thesis
    proof (cases found)
      case True
      let ?w1 = "say (''Skipping already processed business unit: '' @ py_str ?name) w"
      have "keeps bid (checkpoint_file mname year) cp0 w
              (snd (process_units env auth year mnum mname cp0 units ?w1))"
        by (rule keeps_trans [OF _ Cons.IH]) (simp add: keeps_say)
      with Inr True show ?thesis
        by (simp only: process_units.simps Let_def sum.case if_True)
    next
      case False
      with Inr have no: "any_unit_id cp0 ?b = Inr False" by simp
      from any_unit_id_False [OF no] assms have ne: "?b \<noteq> bid" by blast
      have "keeps bid (checkpoint_file mname year) cp0 w
              (snd (case process_unit env auth year mnum mname bu w of
                      (Inl e, w') \<Rightarrow> (Inl e, w')
                    | (Inr u, w') \<Rightarrow> process_units env auth year mnum mname cp0 units w'))"
        by (rule keeps_case_sum) (rule process_unit_keeps [OF no ne], rule Cons.IH)
      with Inr False show ?thesis
        by (simp only: process_units.simps Let_def sum.case if_False)
    qed
  qed
qed

lemma fetch_and_process_keeps:
  assumes "\<exists>v \<in> set (unit_ids (load_checkpoint (checkpoint_file mname year) (files w))). py_eq v bid"
  shows "keeps bid (checkpoint_file mname year) (load_checkpoint (checkpoint_file mname year) (files w)) w
           (snd (fetch_and_process env auth names_input year mnum mname names w))"
proof -
  let ?f = "checkpoint_file mname year"
  let ?cp = "load_checkpoint ?f (files w)"
  let ?w1 = "emit (Http (Units_query auth)) w"
  have k1: "keeps bid ?f ?cp w ?w1"
    by (simp add: keeps_emit)
  show ?thesis
  proof (cases "dataverse_get env (trace w) (Units_query auth)")
    case (Request_exception e)
    with k1 show ?thesis by (simp add: fetch_and_process_def Let_def)
  next
    case (Other_exception e)
    with k1 show ?thesis by (simp add: fetch_and_process_def Let_def)
  next
    case (Fetched business_units)
    let ?w2 = "say (''Total business units retrieved: '' @ str_nat (length business_units)) ?w1"
    have k2: "keeps bid ?f ?cp w ?w2"
      using k1 by (simp add: keeps_say)
    have cp: "load_checkpoint ?f (files ?w2) = ?cp"
      by (simp add: files_say files_emit)
    have "keeps bid ?f ?cp w
            (snd (case select_matching names business_units ?w2 of
                    (Inl e, w3) \<Rightarrow> (Inl e, w3)
                  | (Inr matching_business_units, w3) \<Rightarrow>
                      if matching_business_units = []
                      then (Inr (), say (''No matching business unit found for input: '' @ names_input) w3)
                      else process_units env auth year mnum mname ?cp matching_business_units w3))"
    proof (rule keeps_case_sum)
      show "keeps bid ?f ?cp w (snd (select_matching names business_units ?w2))"
        by (rule keeps_trans [OF k2 select_matching_keeps])
    next
      fix r
      show "keeps bid ?f ?cp (snd (select_matching names business_units ?w2))
              (snd (if r = []
                    then (Inr (), say (''No matching business unit found for input: '' @ names_input)
                                    (snd (select_matching names business_units ?w2)))
                    else process_units env auth year mnum mname ?cp r
                           (snd (select_matching names business_units ?w2))))"
        by (simp add: keeps_say process_units_keeps [OF assms])
    qed
    with Fetched show ?thesis
      by (simp only: fetch_and_process_def Let_def fetched.case cp)
  qed
qed

lemma handle_exceptions_keeps:
  "keeps bid f cp w (snd r) \<Longrightarrow> keeps bid f cp w (snd (handle_exceptions r))"
  by (auto simp: handle_exceptions_def keeps_say split: prod.splits sum.splits error.splits)

lemma get_access_token_keeps: "keeps bid f cp w (snd (get_access_token env w))"
  by (simp add: get_access_token_def Let_def keeps_say keeps_emit split: acquired.splits option.splits)

lemma files_get_access_token: "files (snd (get_access_token env w)) = files w"
  by (simp add: get_access_token_def Let_def files_say files_emit split: acquired.splits option.splits)

lemma run_keeps:
  assumes m: "resolve_month (upper (strip (typed_month env))) = Month mnum mname"
    and "\<exists>v \<in> set (unit_ids (load_checkpoint (checkpoint_file mname (typed_year env)) (files w))).
           py_eq v bid"
  shows "keeps bid (checkpoint_file mname (typed_year env))
           (load_checkpoint (checkpoint_file mname (typed_year env)) (files w)) w
           (snd (fetch_business_units_and_related_data env w))"
proof -
  let ?f = "checkpoint_file mname (typed_year env)"
  let ?cp = "load_checkpoint ?f (files w)"
  let ?p = "get_access_token env w"
  have k0: "keeps bid ?f ?cp w (snd ?p)"
    by (rule get_access_token_keeps)
  show ?thesis
  proof (cases "fst ?p")
    case (Exits code)
    with k0 show ?thesis
      by (simp add: fetch_business_units_and_related_data_def case_prod_beta)
  next
    case (Uncaught e)
    with k0 show ?thesis
      by (simp add: fetch_business_units_and_related_data_def case_prod_beta)
  next
    case (Returns access_token)
    let ?w4 = "emit (Prompt ''Enter the month (e.g., March/Mar/03): '')
                 (emit (Prompt ''Enter the year (e.g., 2024): '')
                    (emit (Prompt ''Enter the business unit names (comma-separated): '') (snd ?p)))"
    let ?w5 = "say (''Month numeric: '' @ mnum @ '', Month name: '' @ mname) ?w4"
    have k5: "keeps bid ?f ?cp w ?w5"
      using k0 by (simp add: keeps_say keeps_emit)
    have cp: "load_checkpoint ?f (files ?w5) = ?cp"
      by (simp add: files_say files_emit files_get_access_token)
    from assms(2) have "\<exists>v \<in> set (unit_ids (load_checkpoint ?f (files ?w5))). py_eq v bid"
      by (simp only: cp)
    from fetch_and_process_keeps [OF this]
    have "keeps bid ?f ?cp ?w5
            (snd (fetch_and_process env (''Bearer '' @ py_str access_token) (upper (typed_names env))
                    (typed_year env) mnum mname
                    (map strip (split_on (CHR '','') (upper (typed_names env)))) ?w5))"
      by (simp only: cp)
    from handle_exceptions_keeps [OF keeps_trans [OF k5 this]] Returns m show ?thesis
      by (simp add: fetch_business_units_and_related_data_def case_prod_beta Let_def)
  qed
qed

lemma unit_ids_member:
  "unit \<in> set processed_units \<Longrightarrow> map_of unit ''business_unit_id'' = Some v \<Longrightarrow>
   v \<in> set (unit_ids processed_units)"
  by (induction processed_units) (auto simp: unit_ids_def split: option.splits)

lemma upper_strip_mar: "upper (strip ''mar'') = ''MAR''"
  by code_simp

lemma resolve_MAR: "resolve_month ''MAR'' = Month ''03'' ''MAR''"
  by (simp add: resolve_month_def month_mapping_def)

lemma save_row_other:
  "save_row env g r fs = Inr fs' \<Longrightarrow> other \<noteq> g \<Longrightarrow> fs' other = fs other"
  by (auto simp: save_row_def split: option.splits)






section \<open>The claims\<close>

text \<open>
  C1 (as stated): for every invalid month input the program terminates before performing
  any network call. The run of \<open>example_env\<close> has the invalid month \<open>3\<close>, and its
  events contain the token request: \<^verbatim>\<open>get_access_token()\<close> is the first statement of
  the function, before the prompts.
\<close>

theorem C1_counterexample:
  "resolve_month (upper (strip (typed_month example_env))) = Invalid_month
   \<and> fst (fetch_business_units_and_related_data example_env empty_world) = Exit 1
   \<and> filter is_network (trace (snd (fetch_business_units_and_related_data example_env empty_world)))
       = [Token_request]"
  by (simp add: eval_defs)

text \<open>
  C1 (amended): for every month input of ASCII characters that is not a key of the month
  table after stripping and upper-casing, the program terminates without any request to
  Dataverse or to the blob storage and without touching a file. The token request has
  already been made when the month is read, so it is the only network call of the run:
  the run ends with exit status 1, or with the uncaught exception of the MSAL constructor
  before any call.
\<close>

theorem C1_invalid_month_only_token_request:
  assumes "ascii (typed_month env)"
    and "upper (strip (typed_month env)) \<notin> fst ` set month_mapping"
  shows "fst (fetch_business_units_and_related_data env w)
           = (case acquire_token_for_client env of App_raises e \<Rightarrow> Crash e | _ \<Rightarrow> Exit 1)
     \<and> filter is_network (trace (snd (fetch_business_units_and_related_data env w)))
           = filter is_network (trace w)
             @ (case acquire_token_for_client env of App_raises e \<Rightarrow> [] | _ \<Rightarrow> [Token_request])
     \<and> files (snd (fetch_business_units_and_related_data env w)) = files w"
proof -
  from assms(2) have "resolve_month (upper (strip (typed_month env))) = Invalid_month"
    by (simp add: resolve_invalid_iff)
  from run_invalid_month [OF this, of w] show ?thesis
    by (auto split: acquired.splits)
qed

theorem C1_invalid_month_witness:
  "ascii (typed_month example_env)
   \<and> upper (strip (typed_month example_env)) \<notin> fst ` set month_mapping
   \<and> fst (fetch_business_units_and_related_data example_env empty_world) = Exit 1
   \<and> filter is_network (trace (snd (fetch_business_units_and_related_data example_env empty_world)))
       = [Token_request]
   \<and> files (snd (fetch_business_units_and_related_data example_env empty_world)) = Map.empty"
proof -
  have acq: "acquire_token_for_client example_env = Token_result [(''access_token'', JStr ''secret'')]"
    by (simp add: example_env_def)
  have w: "trace empty_world = []" "files empty_world = Map.empty"
    by (simp_all add: empty_world_def)
  have a: "ascii (typed_month example_env)"
    by (simp add: example_env_def ascii_def)
  from C1_invalid_month_only_token_request [OF a example_month_invalid, of empty_world]
  show ?thesis
    by (simp only: a acq w acquired.case filter.simps append_Nil example_month_invalid
          not_False_eq_True simp_thms)
qed

text \<open>
  C2 (as stated): a unit is selected if and only if some input term is a substring of
  its name, ignoring the case of both. The user types \<open>kkb\<close> and the unit is named
  \<open>Kkb Alpha\<close>: the term occurs in the name when case is ignored, and the program
  selects nothing, because only the input is upper-cased (line 91) and the name is
  compared as it was fetched (line 173).
\<close>

theorem C2_counterexample:
  "spec_matches (map strip (split_on (CHR '','') ''kkb'')) ''Kkb Alpha''
   \<and> fst (select_matching (map strip (split_on (CHR '','') (upper ''kkb'')))
            [[(''name'', JStr ''Kkb Alpha'')]] empty_world) = Inr []"
  unfolding names_kkb upper_kkb names_KKB
  by (simp add: spec_matches_def upper_kkb upper_Kkb_Alpha sublist_KKB
        dict_get_def not_contains_KKB del: contains.simps)

text \<open>
  C2 (amended): let the typed line consist of ASCII characters and let every fetched
  unit have a string as its name (one name that is not a string ends the matching with a
  \<^verbatim>\<open>TypeError\<close>). Then the units selected are exactly those for which some input
  term (a comma-separated piece of the typed line, stripped), upper-cased, is a substring
  of the unit's name as it was fetched. The matching ignores the case of the input term
  only; it agrees with case-insensitive matching when the names are ASCII and contain no
  lower-case letter.
\<close>

theorem C2_selection_upper_cases_input_only:
  assumes "ascii typed"
    and "\<forall>u \<in> set units. \<exists>s. dict_get u ''name'' (JStr ''Unknown'') = JStr s"
  shows "fst (select_matching (map strip (split_on (CHR '','') (upper typed))) units w)
         = Inr (filter (\<lambda>u. \<exists>t \<in> set (map strip (split_on (CHR '','') typed)).
                         sublist (upper t) (py_str (dict_get u ''name'' (JStr ''Unknown'')))) units)
     \<and> ((\<forall>u \<in> set units. ascii (py_str (dict_get u ''name'' (JStr ''Unknown'')))
                          \<and> upper (py_str (dict_get u ''name'' (JStr ''Unknown'')))
                            = py_str (dict_get u ''name'' (JStr ''Unknown''))) \<longrightarrow>
        fst (select_matching (map strip (split_on (CHR '','') (upper typed))) units w)
         = Inr (filter (\<lambda>u. spec_matches (map strip (split_on (CHR '','') typed))
                               (py_str (dict_get u ''name'' (JStr ''Unknown'')))) units))"
proof -
  have sel: "fst (select_matching (map strip (split_on (CHR '','') (upper typed))) units w)
         = Inr (filter (\<lambda>u. \<exists>t \<in> set (map strip (split_on (CHR '','') typed)).
                         sublist (upper t) (py_str (dict_get u ''name'' (JStr ''Unknown'')))) units)"
    unfolding select_matching_str [OF assms(2)] names_of_upper
    by (simp add: contains_sublist)
  have "filter (\<lambda>u. \<exists>t \<in> set (map strip (split_on (CHR '','') typed)).
                         sublist (upper t) (py_str (dict_get u ''name'' (JStr ''Unknown'')))) units
      = filter (\<lambda>u. spec_matches (map strip (split_on (CHR '','') typed))
                               (py_str (dict_get u ''name'' (JStr ''Unknown'')))) units"
    if "\<forall>u \<in> set units. ascii (py_str (dict_get u ''name'' (JStr ''Unknown'')))
                          \<and> upper (py_str (dict_get u ''name'' (JStr ''Unknown'')))
                            = py_str (dict_get u ''name'' (JStr ''Unknown''))"
    using that by (intro filter_cong refl) (simp add: spec_matches_def)
  with sel show ?thesis by simp
qed

theorem C2_selection_witness:
  "ascii ''kkb''
   \<and> fst (select_matching (map strip (split_on (CHR '','') (upper ''kkb'')))
          [[(''name'', JStr ''KKB ALPHA'')], [(''name'', JStr ''Kkb Alpha'')]] empty_world)
     = Inr [[(''name'', JStr ''KKB ALPHA'')]]"
proof -
  have a: "ascii ''kkb''"
    by (simp add: ascii_def)
  have names: "\<forall>u \<in> set [[(''name'', JStr ''KKB ALPHA'')], [(''name'', JStr ''Kkb Alpha'')]].
                 \<exists>s. dict_get u ''name'' (JStr ''Unknown'') = JStr s"
    by (simp add: dict_get_def)
  from C2_selection_upper_cases_input_only [OF a names, of empty_world]
  show ?thesis
    unfolding names_kkb
    by (simp add: a dict_get_def upper_kkb sublist_KKB not_sublist_KKB)
qed

text \<open>
  C3 (code defect): the authenticator returns a token or terminates the process. When
  \<^verbatim>\<open>acquire_token_for_client\<close> raises, the \<^verbatim>\<open>except\<close> branch of line 42 prints and
  falls through: the function returns \<^verbatim>\<open>None\<close>, and the run goes on to query Dataverse
  with the header \<^verbatim>\<open>Bearer None\<close>. The sibling branch of line 41 calls \<^verbatim>\<open>exit(1)\<close>.
\<close>

theorem C3_exception_returns_None:
  "fst (get_access_token raising_env empty_world) = Returns JNull
   \<and> fst (fetch_business_units_and_related_data raising_env empty_world) = Finished
   \<and> filter is_network (trace (snd (fetch_business_units_and_related_data raising_env empty_world)))
       = [Token_request, Http (Units_query ''Bearer None'')]"
  by (simp add: eval_defs raising_env_def fetch_and_process_def handle_exceptions_def)




text \<open>
  C6: a checkpoint list holds each unit id at most once. The list of an absent file is
  empty, and the update of lines 399 to 411 keeps the invariant, whether it appends a new
  unit or sets the row count of an existing one. On a list whose entries all have an id
  the update does not raise.
\<close>

theorem C6_checkpoint_ids_unique:
  "checkpoint_unique (load_checkpoint file Map.empty)
   \<and> (checkpoint_unique processed_units \<longrightarrow>
        (case update_checkpoint processed_units bid bname n of
           Inl e \<Rightarrow> True
         | Inr units' \<Rightarrow> checkpoint_unique units'))
   \<and> ((\<forall>u \<in> set processed_units. map_of u ''business_unit_id'' \<noteq> None) \<longrightarrow>
        (\<exists>units'. update_checkpoint processed_units bid bname n = Inr units'))"
proof -
  have "checkpoint_unique (load_checkpoint file Map.empty)"
    by (simp add: load_checkpoint_def checkpoint_unique_def unit_ids_def)
  moreover have "checkpoint_unique processed_units \<longrightarrow>
        (case update_checkpoint processed_units bid bname n of
           Inl e \<Rightarrow> True
         | Inr units' \<Rightarrow> checkpoint_unique units')"
    using update_checkpoint_unique by (auto split: sum.splits)
  moreover have "(\<forall>u \<in> set processed_units. map_of u ''business_unit_id'' \<noteq> None) \<longrightarrow>
        (\<exists>units'. update_checkpoint processed_units bid bname n = Inr units')"
    using update_checkpoint_total by blast
  ultimately show ?thesis by blast
qed

theorem C6_checkpoint_ids_unique_witness:
  "checkpoint_unique [[(''business_unit_id'', JStr ''u1''), (''business_unit_name'', JStr ''A''),
                       (''total_rows'', JNum 2)]]
   \<and> update_checkpoint [[(''business_unit_id'', JStr ''u1''), (''business_unit_name'', JStr ''A''),
                          (''total_rows'', JNum 2)]] (JStr ''u1'') (JStr ''A'') 5
       = Inr [[(''business_unit_id'', JStr ''u1''), (''business_unit_name'', JStr ''A''),
               (''total_rows'', JNum 5)]]
   \<and> checkpoint_unique [[(''business_unit_id'', JStr ''u1''), (''business_unit_name'', JStr ''A''),
                          (''total_rows'', JNum 5)]]
   \<and> update_checkpoint [[(''business_unit_id'', JStr ''u1''), (''business_unit_name'', JStr ''A''),
                          (''total_rows'', JNum 2)]] (JStr ''u2'') (JStr ''B'') 0
       = Inr [[(''business_unit_id'', JStr ''u1''), (''business_unit_name'', JStr ''A''),
               (''total_rows'', JNum 2)],
              [(''business_unit_id'', JStr ''u2''), (''business_unit_name'', JStr ''B''),
               (''total_rows'', JNum 0)]]
   \<and> checkpoint_unique [[(''business_unit_id'', JStr ''u1''), (''business_unit_name'', JStr ''A''),
                          (''total_rows'', JNum 2)],
                         [(''business_unit_id'', JStr ''u2''), (''business_unit_name'', JStr ''B''),
                          (''total_rows'', JNum 0)]]"
proof -
  let ?cp = "[[(''business_unit_id'', JStr ''u1''), (''business_unit_name'', JStr ''A''),
               (''total_rows'', JNum 2)]]"
  have u: "checkpoint_unique ?cp"
    by (simp add: checkpoint_unique_def unit_ids_def)
  have upd1: "update_checkpoint ?cp (JStr ''u1'') (JStr ''A'') 5
       = Inr [[(''business_unit_id'', JStr ''u1''), (''business_unit_name'', JStr ''A''),
               (''total_rows'', JNum 5)]]"
    by (simp add: update_checkpoint_def)
  have upd2: "update_checkpoint ?cp (JStr ''u2'') (JStr ''B'') 0
       = Inr [[(''business_unit_id'', JStr ''u1''), (''business_unit_name'', JStr ''A''),
               (''total_rows'', JNum 2)],
              [(''business_unit_id'', JStr ''u2''), (''business_unit_name'', JStr ''B''),
               (''total_rows'', JNum 0)]]"
    by (simp add: update_checkpoint_def)
  from C6_checkpoint_ids_unique [of "''f''" ?cp "JStr ''u1''" "JStr ''A''" 5]
       C6_checkpoint_ids_unique [of "''f''" ?cp "JStr ''u2''" "JStr ''B''" 0] u
  show ?thesis
    by (simp add: upd1 upd2)
qed

text \<open>
  C7: for each of the twelve months, the two-digit number, the full name and the
  three-letter abbreviation resolve to the same pair of number and abbreviation.
\<close>

theorem C7_month_forms_agree:
  "map resolve_month [''01'', ''JANUARY'', ''JAN''] = replicate 3 (Month ''01'' ''JAN'')
   \<and> map resolve_month [''02'', ''FEBRUARY'', ''FEB''] = replicate 3 (Month ''02'' ''FEB'')
   \<and> map resolve_month [''03'', ''MARCH'', ''MAR''] = replicate 3 (Month ''03'' ''MAR'')
   \<and> map resolve_month [''04'', ''APRIL'', ''APR''] = replicate 3 (Month ''04'' ''APR'')
   \<and> map resolve_month [''05'', ''MAY'', ''MAY''] = replicate 3 (Month ''05'' ''MAY'')
   \<and> map resolve_month [''06'', ''JUNE'', ''JUN''] = replicate 3 (Month ''06'' ''JUN'')
   \<and> map resolve_month [''07'', ''JULY'', ''JUL''] = replicate 3 (Month ''07'' ''JUL'')
   \<and> map resolve_month [''08'', ''AUGUST'', ''AUG''] = replicate 3 (Month ''08'' ''AUG'')
   \<and> map resolve_month [''09'', ''SEPTEMBER'', ''SEP''] = replicate 3 (Month ''09'' ''SEP'')
   \<and> map resolve_month [''10'', ''OCTOBER'', ''OCT''] = replicate 3 (Month ''10'' ''OCT'')
   \<and> map resolve_month [''11'', ''NOVEMBER'', ''NOV''] = replicate 3 (Month ''11'' ''NOV'')
   \<and> map resolve_month [''12'', ''DECEMBER'', ''DEC''] = replicate 3 (Month ''12'' ''DEC'')"
  by (simp add: resolve_month_def month_mapping_def numeral_3_eq_3)

text \<open>
  C9: the output record has exactly the destination keys of the field table, in the
  order of the table, and each holds the value of its source field in the merged record,
  or the empty string when the merged record has no such field.
\<close>

theorem C9_remap_total:
  "map fst (remap_row key_mapping combined_row) = map snd key_mapping
   \<and> (\<forall>(old_key, new_key) \<in> set key_mapping.
        map_of (remap_row key_mapping combined_row) new_key
        = Some (case map_of combined_row old_key of Some v \<Rightarrow> v | None \<Rightarrow> JStr []))"
proof
  show "map fst (remap_row key_mapping combined_row) = map snd key_mapping"
    by (simp add: remap_row_eq [OF distinct_key_mapping] case_prod_beta comp_def)
next
  show "\<forall>(old_key, new_key) \<in> set key_mapping.
        map_of (remap_row key_mapping combined_row) new_key
        = Some (case map_of combined_row old_key of Some v \<Rightarrow> v | None \<Rightarrow> JStr [])"
    using map_of_remap_row [of _ _ combined_row]
    by (auto simp: dict_get_def)
qed

theorem C9_remap_total_witness:
  "map_of (remap_row key_mapping [(''crd8d_audit'', JStr ''yes'')]) ''audit'' = Some (JStr ''yes'')
   \<and> map_of (remap_row key_mapping [(''crd8d_audit'', JStr ''yes'')]) ''catatan'' = Some (JStr [])"
proof -
  have a: "(''crd8d_audit'', ''audit'') \<in> set key_mapping"
    and b: "(''crd8d_catatan'', ''catatan'') \<in> set key_mapping"
    by (simp_all add: key_mapping_def)
  from C9_remap_total [of "[(''crd8d_audit'', JStr ''yes'')]"] a b
  show ?thesis by fastforce
qed

text \<open>
  C10: a month typed as a single digit, without a leading zero, is not a key of the month
  table, so the run terminates with exit status 1 (or earlier, with the uncaught
  exception of the MSAL constructor). The accepted inputs are those that, stripped and
  upper-cased, are one of the 35 keys: two-digit numbers, full names and three-letter
  abbreviations.
\<close>

theorem C10_single_digit_month_rejected:
  assumes "d < 10" and "typed_month env = str_nat d"
  shows "typed_month env \<notin> fst ` set month_mapping
     \<and> resolve_month (upper (strip (typed_month env))) = Invalid_month
     \<and> fst (fetch_business_units_and_related_data env w)
         = (case acquire_token_for_client env of App_raises e \<Rightarrow> Crash e | _ \<Rightarrow> Exit 1)
     \<and> (resolve_month s \<noteq> Invalid_month \<longleftrightarrow> s \<in>
          {''01'', ''JANUARY'', ''JAN'', ''02'', ''FEBRUARY'', ''FEB'', ''03'', ''MARCH'', ''MAR'',
           ''04'', ''APRIL'', ''APR'', ''05'', ''MAY'', ''06'', ''JUNE'', ''JUN'', ''07'', ''JULY'',
           ''JUL'', ''08'', ''AUGUST'', ''AUG'', ''09'', ''SEPTEMBER'', ''SEP'', ''10'', ''OCTOBER'',
           ''OCT'', ''11'', ''NOVEMBER'', ''NOV'', ''12'', ''DECEMBER'', ''DEC''})"
proof -
  from assms have m: "typed_month env = [digit_char d]"
    by (simp add: str_nat.simps)
  have norm: "upper (strip (typed_month env)) = typed_month env"
    unfolding m using assms(1) by (simp add: single_digit_normal)
  have notkey: "typed_month env \<notin> fst ` set month_mapping"
    using month_keys_length [of "typed_month env"] by (auto simp: m)
  then have inv: "resolve_month (upper (strip (typed_month env))) = Invalid_month"
    by (simp add: norm resolve_invalid_iff)
  have keys: "resolve_month s \<noteq> Invalid_month \<longleftrightarrow> s \<in> fst ` set month_mapping"
    by (simp add: resolve_invalid_iff)
  from run_invalid_month [OF inv, of w] notkey keys inv show ?thesis
    unfolding month_keys by (auto split: acquired.splits)
qed

theorem C10_single_digit_month_witness:
  "typed_month example_env = str_nat 3
   \<and> ''3'' \<notin> fst ` set month_mapping
   \<and> fst (fetch_business_units_and_related_data example_env empty_world) = Exit 1"
proof -
  have m: "typed_month example_env = ''3''"
    and acq: "acquire_token_for_client example_env = Token_result [(''access_token'', JStr ''secret'')]"
    by (simp_all add: example_env_def)
  have three: "typed_month example_env = str_nat 3"
    unfolding m by (rule str_nat_3 [symmetric])
  have "(3::nat) < 10" by simp
  from C10_single_digit_month_rejected [OF this three, of empty_world] three show ?thesis
    by (simp only: m acq acquired.case simp_thms)
qed

text \<open>
  C8: take a detail row, as the query returns it, on which the download of image slot 3
  fails with a \<^verbatim>\<open>RequestException\<close>, while each of the slots 1, 2, 4 and 5 is absent
  or empty or downloads its content. Then the image loop finishes the row without an
  error, the output record holds the Base64 text of the contents of slots 1, 2, 4 and 5
  (the empty string for an absent slot) and the empty string for slot 3, and the loop
  goes on with the next row.
\<close>

theorem C8_failed_slot_3_left_empty:
  fixes c1 c2 c4 c5 :: string
  assumes "fetched_record business_unit" and "fetched_record row"
    and "slot_gives env row 1 c1" and "slot_gives env row 2 c2"
    and "slot_fails env row 3"
    and "slot_gives env row 4 c4" and "slot_gives env row 5 c5"
  shows "\<exists>row' w'.
           enrich_row env row w = (Inr row', w')
         \<and> map_of (remap_row key_mapping (dict_merge business_unit row')) ''image1_full''
             = Some (JStr (b64encode c1))
         \<and> map_of (remap_row key_mapping (dict_merge business_unit row')) ''image2_full''
             = Some (JStr (b64encode c2))
         \<and> map_of (remap_row key_mapping (dict_merge business_unit row')) ''image3_full''
             = Some (JStr [])
         \<and> map_of (remap_row key_mapping (dict_merge business_unit row')) ''image4_full''
             = Some (JStr (b64encode c4))
         \<and> map_of (remap_row key_mapping (dict_merge business_unit row')) ''image5_full''
             = Some (JStr (b64encode c5))
         \<and> enrich_rows env (row # rows) w
             = (case enrich_rows env rows w' of
                  (Inl e, w'') \<Rightarrow> (Inl e, w'')
                | (Inr rows', w'') \<Rightarrow> (Inr (row' # rows'), w''))"
proof -
  let ?row' = "store_image 5 c5 (store_image 4 c4 (store_image 2 c2 (store_image 1 c1 row)))"
  from enrich_row_slot3_fails [OF assms(3-7), of w] obtain w'
    where e: "enrich_row env row w = (Inr ?row', w')" ..
  note images = output_images [OF assms(1,2) refl refl, of c5 c4 c2 c1]
  have "enrich_rows env (row # rows) w
             = (case enrich_rows env rows w' of
                  (Inl e, w'') \<Rightarrow> (Inl e, w'')
                | (Inr rows', w'') \<Rightarrow> (Inr (?row' # rows'), w''))"
    by (simp only: enrich_rows.simps e prod.case sum.case)
  with e images show ?thesis by blast
qed

theorem C8_failed_slot_3_witness:
  "\<exists>row' w'.
      enrich_row image_env image_row empty_world = (Inr row', w')
    \<and> map_of (remap_row key_mapping (dict_merge [(''name'', JStr ''KKB ALPHA'')] row')) ''image1_full''
        = Some (JStr ''TWFu'')
    \<and> map_of (remap_row key_mapping (dict_merge [(''name'', JStr ''KKB ALPHA'')] row')) ''image3_full''
        = Some (JStr [])
    \<and> map_of (remap_row key_mapping (dict_merge [(''name'', JStr ''KKB ALPHA'')] row')) ''image4_full''
        = Some (JStr [])"
proof -
  have u: "fetched_record [(''name'', JStr ''KKB ALPHA'')]"
    by (simp add: fetched_record_def base64_key_def)
  have r: "fetched_record image_row"
    by (simp add: fetched_record_def base64_key_def image_row_def)
  have s1: "slot_gives image_env image_row 1 ''Man''"
    by (simp add: slot_gives_def blob_attribute_values image_row_def image_env_def base_url_def)
  have s2: "slot_gives image_env image_row 2 []"
    by (simp add: slot_gives_def blob_attribute_values image_row_def)
  have s3: "slot_fails image_env image_row 3"
    by (simp add: slot_fails_def blob_attribute_values image_row_def image_env_def)
  have s4: "slot_gives image_env image_row 4 []"
    by (simp add: slot_gives_def blob_attribute_values image_row_def)
  have s5: "slot_gives image_env image_row 5 []"
    by (simp add: slot_gives_def blob_attribute_values image_row_def)
  from C8_failed_slot_3_left_empty [OF u r s1 s2 s3 s4 s5, of empty_world "[]"]
  obtain row' w' where
    "enrich_row image_env image_row empty_world = (Inr row', w')"
    "map_of (remap_row key_mapping (dict_merge [(''name'', JStr ''KKB ALPHA'')] row')) ''image1_full''
        = Some (JStr (b64encode ''Man''))"
    "map_of (remap_row key_mapping (dict_merge [(''name'', JStr ''KKB ALPHA'')] row')) ''image3_full''
        = Some (JStr [])"
    "map_of (remap_row key_mapping (dict_merge [(''name'', JStr ''KKB ALPHA'')] row')) ''image4_full''
        = Some (JStr (b64encode []))"
    by blast
  then show ?thesis
    by (intro exI [of _ row'] exI [of _ w']) (simp only: b64encode_Man b64encode.simps(1) simp_thms)
qed

text \<open>
  C5: let the month be valid and let the checkpoint file of that month and year, as the
  run finds it, hold an entry whose id equals the id \<open>bid\<close> of a unit. Then the run
  issues no detail query for that unit, and the checkpoint file after the run still
  begins with all the entries it had, unchanged; in particular the entry of that unit is
  still in it, with its row count.
\<close>

theorem C5_checkpointed_unit_not_requeried:
  assumes "resolve_month (upper (strip (typed_month env))) = Month month_numeric month_name"
    and "unit \<in> set (load_checkpoint (checkpoint_file month_name (typed_year env)) (files w))"
    and "map_of unit ''business_unit_id'' = Some v"
    and "py_eq v bid"
  shows "filter (is_details_query_for bid) (trace (snd (fetch_business_units_and_related_data env w)))
           = filter (is_details_query_for bid) (trace w)
     \<and> prefix (load_checkpoint (checkpoint_file month_name (typed_year env)) (files w))
          (load_checkpoint (checkpoint_file month_name (typed_year env))
             (files (snd (fetch_business_units_and_related_data env w))))
     \<and> unit \<in> set (load_checkpoint (checkpoint_file month_name (typed_year env))
                      (files (snd (fetch_business_units_and_related_data env w))))"
proof -
  let ?f = "checkpoint_file month_name (typed_year env)"
  from unit_ids_member [OF assms(2,3)] assms(4)
  have "\<exists>v \<in> set (unit_ids (load_checkpoint ?f (files w))). py_eq v bid"
    by blast
  from run_keeps [OF assms(1) this]
  have t: "filter (is_details_query_for bid) (trace (snd (fetch_business_units_and_related_data env w)))
           = filter (is_details_query_for bid) (trace w)"
    and p: "prefix (load_checkpoint ?f (files w))
          (load_checkpoint ?f (files (snd (fetch_business_units_and_related_data env w))))"
    by (simp_all add: keeps_def)
  from p assms(2) have "unit \<in> set (load_checkpoint ?f
                      (files (snd (fetch_business_units_and_related_data env w))))"
    by (auto dest: set_mono_prefix)
  with t p show ?thesis by simp
qed

theorem C5_checkpointed_unit_witness:
  "filter (is_details_query_for (JStr ''u1''))
     (trace (snd (fetch_business_units_and_related_data rerun_env rerun_world))) = []
   \<and> [(''business_unit_id'', JStr ''u1''), (''business_unit_name'', JStr ''KKB ALPHA''),
       (''total_rows'', JNum 3)]
     \<in> set (load_checkpoint (checkpoint_file ''MAR'' ''2024'')
               (files (snd (fetch_business_units_and_related_data rerun_env rerun_world))))"
proof -
  let ?unit = "[(''business_unit_id'', JStr ''u1''), (''business_unit_name'', JStr ''KKB ALPHA''),
                (''total_rows'', JNum 3)]"
  have y: "typed_year rerun_env = ''2024''" and mo: "typed_month rerun_env = ''mar''"
    by (simp_all add: rerun_env_def)
  have m: "resolve_month (upper (strip (typed_month rerun_env))) = Month ''03'' ''MAR''"
    by (simp only: mo upper_strip_mar resolve_MAR)
  have tr: "trace rerun_world = []"
    by (simp add: rerun_world_def)
  have "load_checkpoint (checkpoint_file ''MAR'' ''2024'') (files rerun_world) = [?unit]"
    by (simp add: rerun_world_def load_checkpoint_def)
  then have u: "?unit \<in> set (load_checkpoint (checkpoint_file ''MAR'' (typed_year rerun_env))
                                (files rerun_world))"
    by (simp only: y list.set_intros)
  have i: "map_of ?unit ''business_unit_id'' = Some (JStr ''u1'')"
    by simp
  have e: "py_eq (JStr ''u1'') (JStr ''u1'')"
    by simp
  from C5_checkpointed_unit_not_requeried [OF m u i e] show ?thesis
    by (simp only: y tr filter.simps simp_thms)
qed

end
